theory Spec2Isabelle
  imports Complex_Main "HOL-Library.AList"
begin


section \<open>Python values, dictionaries and the log\<close>

text \<open>
  The thermostat gateway passes JSON-shaped dictionaries around.  A value is \<open>None\<close>, a
  bool, an int, a float, a string or a nested dictionary.  Finite floats are carried as
  rationals (the thermostats report multiples of one half, which binary floats hold
  exactly); NaN and the infinities are not represented in a dictionary.  Where the code
  computes with floats, the operations are those of the section on Python floats below.
  A dictionary is an association
  list in insertion order: \<open>d[k] = v\<close> is \<open>AList.update\<close> (an existing key keeps its
  place), \<open>del d[k]\<close> is \<open>AList.delete\<close>, \<open>d.get(k)\<close> is \<open>dict_get\<close> and
  \<open>k in d\<close> is \<open>key_in\<close>.
\<close>

datatype pyval =
    PNone
  | PBool bool
  | PInt int
  | PFloat rat
  | PStr string
  | PDict "(string \<times> pyval) list"

type_synonym pydict = "(string \<times> pyval) list"

text \<open>The numeric value of a Python number; \<open>True\<close> and \<open>False\<close> are the ints 1 and 0.\<close>

fun py_num :: "pyval \<Rightarrow> rat option" where
  "py_num (PBool b) = Some (if b then 1 else 0)"
| "py_num (PInt i) = Some (of_int i)"
| "py_num (PFloat r) = Some r"
| "py_num PNone = None"
| "py_num (PStr s) = None"
| "py_num (PDict d) = None"

text \<open>Python's \<open>==\<close>: numbers compare by value across bool, int and float; a number never
  equals a non-number; other values compare structurally (for two dictionaries this is
  finer than Python, which ignores the order of the keys; the code modelled here never
  compares two dictionaries).\<close>

definition py_eq :: "pyval \<Rightarrow> pyval \<Rightarrow> bool" where
  "py_eq a b =
     (case (py_num a, py_num b) of
        (Some x, Some y) \<Rightarrow> x = y
      | (None, None) \<Rightarrow> a = b
      | _ \<Rightarrow> False)"

text \<open>\<open>x in (a, b, ...)\<close> on a tuple or list of values.\<close>

definition py_in :: "pyval \<Rightarrow> pyval list \<Rightarrow> bool" where
  "py_in x xs = list_ex (py_eq x) xs"

definition key_in :: "string \<Rightarrow> pydict \<Rightarrow> bool" where
  "key_in k d = (map_of d k \<noteq> None)"

definition dict_get :: "pydict \<Rightarrow> string \<Rightarrow> pyval" where
  "dict_get d k = (case map_of d k of Some v \<Rightarrow> v | None \<Rightarrow> PNone)"

datatype level = Debug | Info | Warning | Error

text \<open>A log record: the level and the message text without its interpolated values.\<close>

type_synonym log_entry = "level \<times> string"

section \<open>Python floats\<close>

text \<open>
  A Python float is an IEEE 754 binary64 number: NaN, an infinity, or a finite value
  \<open>m * 2^q\<close> with integers \<open>\<bar>m\<bar> < 2^53\<close> and \<open>-1074 \<le> q \<le> 971\<close>.  A finite float
  is carried by its value, a rational; the sign of a zero is not kept (no comparison of
  Python sees it).  An arithmetic operation gives the exact result rounded to the
  nearest float, a tie going to the even significand, and an infinity from \<open>2^1024\<close> on.
\<close>

datatype pyfloat = Fin rat | PosInf | NegInf | NaN

text \<open>\<open>int.bit_length()\<close> of a natural number.\<close>

fun bit_length :: "nat \<Rightarrow> nat" where
  "bit_length n = (if n = 0 then 0 else Suc (bit_length (n div 2)))"

declare bit_length.simps [simp del]

text \<open>The binary exponent of a rational \<open>r \<noteq> 0\<close>: the integer \<open>k\<close> with
  \<open>2^k \<le> \<bar>r\<bar> < 2^(k+1)\<close>.\<close>

definition ilog2 :: "rat \<Rightarrow> int" where
  "ilog2 r =
     (let a = \<bar>r\<bar>
      in if 1 \<le> a then int (bit_length (nat \<lfloor>a\<rfloor>)) - 1
         else let k = int (bit_length (nat \<lfloor>1 / a\<rfloor>)) - 1
              in if a * 2 ^ nat k = 1 then - k else - k - 1)"

definition pow2 :: "int \<Rightarrow> rat" where
  "pow2 q = (if 0 \<le> q then 2 ^ nat q else 1 / 2 ^ nat (- q))"

text \<open>The nearest integer, a tie going to the even one.\<close>

definition round_half_even :: "rat \<Rightarrow> int" where
  "round_half_even m =
     (let f = \<lfloor>m\<rfloor>; d = m - of_int f
      in if d < 1 / 2 then f else if 1 / 2 < d then f + 1 else if even f then f else f + 1)"

text \<open>Rounding a rational to a float.  The significand has 53 bits, so the spacing of
  the floats around \<open>r\<close> is \<open>2^(ilog2 r - 52)\<close>, and \<open>2^-1074\<close> in the subnormal
  range.\<close>

definition to_double :: "rat \<Rightarrow> pyfloat" where
  "to_double r =
     (if r = 0 then Fin 0
      else
        let q = max (ilog2 r - 52) (- 1074);
            n = round_half_even (r / pow2 q);
            v = of_int n * pow2 q
        in if 2 ^ 1024 \<le> v then PosInf else if v \<le> - (2 ^ 1024) then NegInf else Fin v)"

text \<open>\<open>a - b\<close>, \<open>abs(a)\<close>, \<open>a < b\<close>, \<open>a == b\<close>, \<open>a != b\<close> and \<open>a >= b\<close> on floats.
  NaN propagates through the arithmetic and makes every comparison but \<open>!=\<close> false.\<close>

fun float_sub :: "pyfloat \<Rightarrow> pyfloat \<Rightarrow> pyfloat" where
  "float_sub (Fin a) (Fin b) = to_double (a - b)"
| "float_sub (Fin a) PosInf = NegInf"
| "float_sub (Fin a) NegInf = PosInf"
| "float_sub PosInf (Fin b) = PosInf"
| "float_sub PosInf NegInf = PosInf"
| "float_sub PosInf PosInf = NaN"
| "float_sub NegInf (Fin b) = NegInf"
| "float_sub NegInf PosInf = NegInf"
| "float_sub NegInf NegInf = NaN"
| "float_sub NaN b = NaN"
| "float_sub a NaN = NaN"

fun float_abs :: "pyfloat \<Rightarrow> pyfloat" where
  "float_abs (Fin a) = Fin \<bar>a\<bar>"
| "float_abs PosInf = PosInf"
| "float_abs NegInf = PosInf"
| "float_abs NaN = NaN"

fun float_lt :: "pyfloat \<Rightarrow> pyfloat \<Rightarrow> bool" where
  "float_lt (Fin a) (Fin b) = (a < b)"
| "float_lt (Fin a) PosInf = True"
| "float_lt NegInf (Fin b) = True"
| "float_lt NegInf PosInf = True"
| "float_lt a b = False"

definition float_eq :: "pyfloat \<Rightarrow> pyfloat \<Rightarrow> bool" where
  "float_eq a b = (a \<noteq> NaN \<and> b \<noteq> NaN \<and> a = b)"

definition float_ne :: "pyfloat \<Rightarrow> pyfloat \<Rightarrow> bool" where
  "float_ne a b = (\<not> float_eq a b)"

definition float_ge :: "pyfloat \<Rightarrow> pyfloat \<Rightarrow> bool" where
  "float_ge a b = (float_lt b a \<or> float_eq a b)"

section \<open>ConfigPolicy: seasonal defaults and safe command construction\<close>

text \<open>\<open>datetime.date\<close>: compared lexicographically on year, month, day.\<close>

record date =
  year :: int
  month :: int
  day :: int

definition date_le :: "date \<Rightarrow> date \<Rightarrow> bool" where
  "date_le a b =
     (year a < year b \<or>
      (year a = year b \<and> (month a < month b \<or> (month a = month b \<and> day a \<le> day b))))"

record season_config =
  season :: string
  config :: pydict

text \<open>\<open>_determine_seasonal_config\<close>, with \<open>date.today()\<close> passed in as \<open>today\<close>.\<close>

definition determine_seasonal_config :: "date \<Rightarrow> season_config" where
  "determine_seasonal_config today =
     (let current_year = year today;
          heating_season_start = \<lparr>year = current_year, month = 11, day = 16\<rparr>
      in if date_le heating_season_start today
            \<or> date_le today \<lparr>year = current_year, month = 4, day = 14\<rparr>
         then \<lparr>season = ''heating'',
               config = [(''tmode'', PInt 1), (''t_heat'', PInt 50), (''fmode'', PInt 0)]\<rparr>
         else \<lparr>season = ''cooling'',
               config = [(''tmode'', PInt 0), (''fmode'', PInt 0)]\<rparr>)"

text \<open>\<open>_build_safe_thermostat_command\<close>: returns the command and the warnings it logged.\<close>

definition build_safe_thermostat_command :: "pydict \<Rightarrow> pydict \<times> log_entry list" where
  "build_safe_thermostat_command cfg =
     (let (command, lg) =
            (if key_in ''tmode'' cfg \<and> dict_get cfg ''tmode'' \<noteq> PNone
             then (if py_in (dict_get cfg ''tmode'') [PInt 0, PInt 1]
                   then (AList.update ''tmode'' (dict_get cfg ''tmode'') [], [])
                   else (AList.update ''tmode'' (PInt 0) [],
                         [(Warning, ''Invalid tmode - using OFF mode'')]))
             else ([], []));
          command =
            (if py_eq (dict_get command ''tmode'') (PInt 1)
                \<and> key_in ''t_heat'' cfg \<and> dict_get cfg ''t_heat'' \<noteq> PNone
             then AList.update ''t_heat'' (dict_get cfg ''t_heat'') command
             else command);
          command =
            fold (\<lambda>key c. if key_in key cfg \<and> dict_get cfg key \<noteq> PNone
                           then AList.update key (dict_get cfg key) c else c)
                 [''hold'', ''fmode''] command
      in (command, lg))"

section \<open>The devices, the store and the environment\<close>

text \<open>\<open>discovery/models.py\<close>: a discovered thermostat.\<close>

record ThermostatDevice =
  ip :: string
  uuid :: string
  name :: string
  model :: string
  api_version :: int
  fw_version :: string
  base_url :: string
  discovery_method :: string
  last_seen :: rat

text \<open>\<open>database/models.py\<close>: a row of the table \<open>thermostats\<close>.  The fields carry the
  prefix \<open>r_\<close>, the device record above using several of the names.\<close>

record ThermostatRecord =
  r_thermostat_id :: string
  r_ip_address :: string
  r_name :: string
  r_model :: string
  r_api_version :: int
  r_fw_version :: string
  r_discovery_method :: string
  r_active :: bool
  r_away_temp :: "rat option"
  r_last_seen :: int

text \<open>An HTTP exchange either yields a status and a JSON body or raises (connection
  refused, timeout, malformed body).\<close>

datatype http_resp = Resp nat pydict | ConnError

text \<open>
  What the process can observe and change: the \<open>POST /tstat\<close> requests issued to
  devices, in order, each with the device address and the JSON payload; the tables
  \<open>device_config\<close> and \<open>thermostats\<close>, keyed by thermostat id; and the batches sent to
  the public server's registration endpoint.
\<close>

record world =
  posts :: "(string \<times> pydict) list"
  device_config :: "(string \<times> pydict) list"
  thermostats :: "(string \<times> ThermostatRecord) list"
  registrations :: "ThermostatRecord list list"

text \<open>
  What the process cannot control: the calendar date, the clock (one instant per
  operation, in microseconds; \<open>weekday\<close>, \<open>hour\<close>, \<open>minute\<close> are the local wall
  clock), the answer of a device to the \<open>n\<close>-th POST and to a \<open>GET /tstat\<close>, whether a
  storage call raises inside \<open>DatabaseManager\<close> (which catches and logs it), and the
  outcome of a registration upload.
\<close>

record env =
  today :: date
  now :: int
  weekday :: int
  hour :: int
  minute :: int
  device_answers_post :: "nat \<Rightarrow> string \<Rightarrow> pydict \<Rightarrow> http_resp"
  device_answers_get :: "string \<Rightarrow> http_resp"
  device_config_write_fails :: bool
  thermostats_read_fails :: bool
  thermostats_write_fails :: bool
  public_sync_present :: bool
  public_server_enabled :: bool
  register_ok :: "ThermostatRecord list \<Rightarrow> bool"

text \<open>Issue one \<open>POST /tstat\<close>: the request is recorded and the device's answer returned.\<close>

definition post_to_device :: "env \<Rightarrow> string \<Rightarrow> pydict \<Rightarrow> world \<Rightarrow> http_resp \<times> world" where
  "post_to_device e addr payload w =
     (device_answers_post e (length (posts w)) addr payload, w\<lparr>posts := posts w @ [(addr, payload)]\<rparr>)"

text \<open>\<open>DatabaseManager.update_device_config\<close>: an upsert that sets the given columns and
  \<open>updated_at\<close>; an exception is caught and leaves the table as it was.  A timestamp
  column holds the instant as \<open>PInt\<close>.\<close>

definition update_device_config :: "env \<Rightarrow> string \<Rightarrow> pydict \<Rightarrow> world \<Rightarrow> world" where
  "update_device_config e tid config_updates w =
     (if device_config_write_fails e then w
      else
        let row = (case map_of (device_config w) tid of Some r \<Rightarrow> r | None \<Rightarrow> []);
            row = fold (\<lambda>(key, v). AList.update key v) config_updates row;
            row = AList.update ''updated_at'' (PInt (now e)) row
        in w\<lparr>device_config := AList.update tid row (device_config w)\<rparr>)"

section \<open>ConfigPolicy: the hold-aware configuration of one device\<close>

text \<open>\<open>read_thermostat_current_settings\<close>: \<open>None\<close> unless the device answers 200.\<close>

definition read_thermostat_current_settings :: "env \<Rightarrow> string \<Rightarrow> pydict option" where
  "read_thermostat_current_settings e device_ip =
     (case device_answers_get e device_ip of
        Resp status data \<Rightarrow>
          if status = 200
          then Some [(''tmode'', dict_get data ''tmode''),
                     (''t_heat'', dict_get data ''t_heat''),
                     (''t_cool'', dict_get data ''t_cool''),
                     (''hold'', dict_get data ''hold'')]
          else None
      | ConnError \<Rightarrow> None)"

text \<open>\<open>apply_initial_settings\<close>: the fan-off baseline.\<close>

definition apply_initial_settings :: "env \<Rightarrow> string \<Rightarrow> world \<Rightarrow> bool \<times> world" where
  "apply_initial_settings e device_ip w =
     (let initial_settings = [(''fmode'', PInt 0)];
          (response, w) = post_to_device e device_ip initial_settings w
      in case response of
           Resp status body \<Rightarrow> (status = 200, w)
         | ConnError \<Rightarrow> (False, w))"

text \<open>\<open>_save_config_to_database\<close>: records mode, setpoint and hold, never \<open>t_cool\<close>.\<close>

definition save_config_to_database :: "env \<Rightarrow> string \<Rightarrow> pydict \<Rightarrow> world \<Rightarrow> world" where
  "save_config_to_database e tid cfg w =
     (let config_updates = [];
          config_updates =
            (if key_in ''tmode'' cfg \<and> dict_get cfg ''tmode'' \<noteq> PNone
             then AList.update ''tmode_applied_at'' (PInt (now e))
                    (AList.update ''tmode_set'' (dict_get cfg ''tmode'') config_updates)
             else config_updates);
          config_updates =
            (if key_in ''t_heat'' cfg \<and> dict_get cfg ''t_heat'' \<noteq> PNone
             then AList.update ''t_heat_applied_at'' (PInt (now e))
                    (AList.update ''t_heat_set'' (dict_get cfg ''t_heat'') config_updates)
             else config_updates);
          config_updates =
            (if key_in ''hold'' cfg \<and> dict_get cfg ''hold'' \<noteq> PNone
             then AList.update ''hold_applied_at'' (PInt (now e))
                    (AList.update ''hold_set'' (dict_get cfg ''hold'') config_updates)
             else config_updates)
      in if config_updates \<noteq> [] then update_device_config e tid config_updates w else w)"

text \<open>\<open>_sync_thermostat_time\<close>: posts the wall clock; a failure is only logged.\<close>

definition sync_thermostat_time :: "env \<Rightarrow> ThermostatDevice \<Rightarrow> world \<Rightarrow> world" where
  "sync_thermostat_time e device w =
     (let thermostat_time = [(''day'', PInt (weekday e)), (''hour'', PInt (hour e)),
                             (''minute'', PInt (minute e))]
      in snd (post_to_device e (ip device) [(''time'', PDict thermostat_time)] w))"

text \<open>\<open>_apply_seasonal_safety_config\<close>, the fallback when the device cannot be read.  An
  exception of the POST skips the rest of the body, the time synchronisation included.\<close>

definition apply_seasonal_safety_config :: "env \<Rightarrow> ThermostatDevice \<Rightarrow> world \<Rightarrow> world" where
  "apply_seasonal_safety_config e device w =
     (let season_config = determine_seasonal_config (today e);
          safety_config = AList.update ''hold'' (PInt 1) (config season_config);
          command = fst (build_safe_thermostat_command safety_config);
          (response, w) = post_to_device e (ip device) command w
      in case response of
           Resp status body \<Rightarrow>
             sync_thermostat_time e device
               (if status = 200 then save_config_to_database e (uuid device) safety_config w
                else w)
         | ConnError \<Rightarrow> w)"

text \<open>\<open>_apply_seasonal_defaults_with_hold\<close>.  The dictionary of changes it computes
  from \<open>current_settings\<close> only feeds a log line.\<close>

definition apply_seasonal_defaults_with_hold ::
    "env \<Rightarrow> ThermostatDevice \<Rightarrow> pydict \<Rightarrow> world \<Rightarrow> world" where
  "apply_seasonal_defaults_with_hold e device current_settings w =
     (let season_config = determine_seasonal_config (today e);
          cfg = AList.update ''hold'' (PInt 1) (config season_config);
          cfg = (if \<not> py_in (dict_get cfg ''tmode'') [PInt 0, PInt 1]
                 then AList.update ''tmode'' (PInt 0) cfg else cfg);
          command = fst (build_safe_thermostat_command cfg);
          (response, w) = post_to_device e (ip device) command w
      in case response of
           Resp status body \<Rightarrow>
             if status = 200 then save_config_to_database e (uuid device) cfg w else w
         | ConnError \<Rightarrow> w)"

text \<open>\<open>_update_db_from_thermostat\<close>: mirrors what the device reports into
  \<open>device_config\<close>.  The stored configuration it reads first only feeds a log line.\<close>

definition update_db_from_thermostat :: "env \<Rightarrow> string \<Rightarrow> pydict \<Rightarrow> world \<Rightarrow> world" where
  "update_db_from_thermostat e tid current_settings w =
     (let config_updates = [];
          config_updates =
            (if dict_get current_settings ''tmode'' \<noteq> PNone
             then AList.update ''tmode_applied_at'' (PInt (now e))
                    (AList.update ''tmode_set'' (dict_get current_settings ''tmode'') config_updates)
             else config_updates);
          config_updates =
            (if dict_get current_settings ''t_heat'' \<noteq> PNone
             then AList.update ''t_heat_applied_at'' (PInt (now e))
                    (AList.update ''t_heat_set'' (dict_get current_settings ''t_heat'') config_updates)
             else config_updates);
          config_updates =
            (if dict_get current_settings ''t_cool'' \<noteq> PNone
             then AList.update ''t_cool_applied_at'' (PInt (now e))
                    (AList.update ''t_cool_set'' (dict_get current_settings ''t_cool'') config_updates)
             else config_updates);
          config_updates =
            (if dict_get current_settings ''hold'' \<noteq> PNone
             then AList.update ''hold_applied_at'' (PInt (now e))
                    (AList.update ''hold_set'' (dict_get current_settings ''hold'') config_updates)
             else config_updates)
      in if config_updates \<noteq> [] then update_device_config e tid config_updates w else w)"

text \<open>\<open>apply_intelligent_config\<close>, the entry point.  \<open>discovery_type\<close> only selects
  whether an unsafe-looking held setting is logged.\<close>

definition apply_intelligent_config ::
    "env \<Rightarrow> ThermostatDevice \<Rightarrow> pydict option \<Rightarrow> string \<Rightarrow> world \<Rightarrow> world" where
  "apply_intelligent_config e device current_settings discovery_type w =
     (let w = snd (apply_initial_settings e (ip device) w);
          current_settings =
            (case current_settings of
               None \<Rightarrow> read_thermostat_current_settings e (ip device)
             | Some s \<Rightarrow> Some s)
      in case current_settings of
           None \<Rightarrow> apply_seasonal_safety_config e device w
         | Some s \<Rightarrow>
             if py_eq (dict_get s ''hold'') (PInt 0)
             then apply_seasonal_defaults_with_hold e device s w
             else update_db_from_thermostat e (uuid device) s w)"

section \<open>CommandExecutor: the remote \<open>set_state\<close> command\<close>

text \<open>
  What the executor gets from outside: the address lookup of the database adapter
  (\<open>_resolve_thermostat_ip\<close>, by site and thermostat id) and Python's parser of a
  float written as a string, which \<open>float(t_heat)\<close> uses when the setpoint arrives as
  text (\<open>None\<close> when the text is no number; text that spells an infinity or NaN is
  outside the model).
\<close>

record executor_env =
  resolve_thermostat_ip :: "string \<Rightarrow> string \<Rightarrow> string option"
  float_of_str :: "string \<Rightarrow> rat option"

text \<open>The exceptions that can leave \<open>_execute_set_state\<close>, and the error messages it
  returns: one constructor per message of the source.\<close>

datatype py_exn = TypeError | ValueError | OverflowError

datatype set_state_error =
    InvalidTmode
  | InvalidHold
  | MissingTHeat
  | THeatMustBeOmitted
  | IPNotFound
  | DeviceHTTP nat
  | PostFailed
  | VerificationFailed

type_synonym set_state_result =
  "bool \<times> set_state_error option \<times> (string \<times> bool \<times> set_state_error option) list option"

text \<open>\<open>float(v)\<close>.  An int is rounded to the nearest float; one too large for a float
  raises \<open>OverflowError\<close>.\<close>

fun py_float :: "executor_env \<Rightarrow> pyval \<Rightarrow> py_exn + rat" where
  "py_float x (PBool b) = Inr (if b then 1 else 0)"
| "py_float x (PInt i) = (case to_double (of_int i) of Fin r \<Rightarrow> Inr r | _ \<Rightarrow> Inl OverflowError)"
| "py_float x (PFloat r) = Inr r"
| "py_float x (PStr s) = (case float_of_str x s of Some r \<Rightarrow> Inr r | None \<Rightarrow> Inl ValueError)"
| "py_float x PNone = Inl TypeError"
| "py_float x (PDict d) = Inl TypeError"

text \<open>\<open>_post_tstat\<close>: accepted when the device answers with a 2xx status.\<close>

definition post_tstat ::
    "env \<Rightarrow> string \<Rightarrow> pydict \<Rightarrow> world \<Rightarrow> (bool \<times> set_state_error option) \<times> world" where
  "post_tstat e addr payload w =
     (let (response, w) = post_to_device e addr payload w
      in case response of
           Resp status body \<Rightarrow>
             if 200 \<le> status \<and> status < 300 then ((True, None), w)
             else ((False, Some (DeviceHTTP status)), w)
         | ConnError \<Rightarrow> ((False, Some PostFailed), w))"

text \<open>\<open>_get_tstat_readback\<close>: the JSON body of a 2xx answer, else the empty dictionary.\<close>

definition get_tstat_readback :: "env \<Rightarrow> string \<Rightarrow> pydict" where
  "get_tstat_readback e addr =
     (case device_answers_get e addr of
        Resp status body \<Rightarrow> if 200 \<le> status \<and> status < 300 then body else []
      | ConnError \<Rightarrow> [])"

text \<open>The operands of Python's arithmetic: the value of an int or bool, and the float
  that a number becomes when the other operand is a float (\<open>OverflowError\<close> for an
  int too large).\<close>

fun py_int :: "pyval \<Rightarrow> int option" where
  "py_int (PBool b) = Some (if b then 1 else 0)"
| "py_int (PInt i) = Some i"
| "py_int v = None"

fun arith_float :: "pyval \<Rightarrow> py_exn + pyfloat" where
  "arith_float (PFloat r) = Inr (Fin r)"
| "arith_float (PInt i) = (case to_double (of_int i) of Fin r \<Rightarrow> Inr (Fin r) | _ \<Rightarrow> Inl OverflowError)"
| "arith_float (PBool b) = Inr (Fin (if b then 1 else 0))"
| "arith_float v = Inl TypeError"

text \<open>\<open>_verify_set_state\<close>.  In HEAT mode the difference of the setpoints is taken only
  after mode and hold agree (\<open>and\<close> short-circuits).  The subtraction raises
  \<open>TypeError\<close> when a side is no number; two ints subtract exactly and Python compares
  the int with the float \<open>0.1\<close> by value; otherwise both sides become floats and the
  difference is rounded.  The literal \<open>0.1\<close> is the float nearest to one tenth.\<close>

definition verify_set_state :: "env \<Rightarrow> string \<Rightarrow> pydict \<Rightarrow> py_exn + bool" where
  "verify_set_state e addr expected =
     (let current = get_tstat_readback e addr
      in if current = [] then Inr False
         else
           let exp_mode = dict_get expected ''tmode'';
               exp_hold = dict_get expected ''hold'';
               exp_heat = dict_get expected ''t_heat'';
               act_mode = dict_get current ''tmode'';
               act_hold = dict_get current ''hold'';
               act_heat = dict_get current ''t_heat''
           in if py_eq exp_mode (PInt 0)
              then Inr (py_eq act_mode (PInt 0) \<and> py_eq act_hold exp_hold)
              else if \<not> py_eq act_mode (PInt 1) then Inr False
              else if \<not> py_eq act_hold exp_hold then Inr False
              else if py_num act_heat = None \<or> py_num exp_heat = None then Inl TypeError
              else (case (py_int act_heat, py_int exp_heat) of
                      (Some i, Some j) \<Rightarrow>
                        Inr (float_lt (Fin (of_int \<bar>i - j\<bar>)) (to_double (1 / 10)))
                    | _ \<Rightarrow>
                        (case arith_float act_heat of
                           Inl exn \<Rightarrow> Inl exn
                         | Inr a \<Rightarrow>
                             (case arith_float exp_heat of
                                Inl exn \<Rightarrow> Inl exn
                              | Inr b \<Rightarrow>
                                  Inr (float_lt (float_abs (float_sub a b))
                                         (to_double (1 / 10)))))))"

text \<open>The nested \<open>do_one\<close> of \<open>_execute_set_state\<close>, with the validated \<open>tmode\<close>,
  \<open>hold\<close> and \<open>t_heat\<close> it closes over.  An empty address counts as not found.  The
  update of \<open>device_config\<close> is wrapped in its own \<open>try\<close> and cannot fail the command.\<close>

definition do_one ::
    "executor_env \<Rightarrow> env \<Rightarrow> string \<Rightarrow> pyval \<Rightarrow> pyval \<Rightarrow> pyval \<Rightarrow> string \<Rightarrow> world
       \<Rightarrow> (py_exn + (string \<times> bool \<times> set_state_error option)) \<times> world" where
  "do_one x e site_id tmode hold t_heat tid w =
     (case resolve_thermostat_ip x site_id tid of
        None \<Rightarrow> (Inr (tid, False, Some IPNotFound), w)
      | Some addr \<Rightarrow>
          if addr = [] then (Inr (tid, False, Some IPNotFound), w)
          else
            let payload = AList.update ''hold'' hold (AList.update ''tmode'' tmode [])
            in case (if py_eq tmode (PInt 1)
                     then (case py_float x t_heat of
                             Inl exn \<Rightarrow> Inl exn
                           | Inr f \<Rightarrow> Inr (AList.update ''t_heat'' (PFloat f) payload))
                     else Inr payload) of
                 Inl exn \<Rightarrow> (Inl exn, w)
               | Inr payload \<Rightarrow>
                   let ((ok, err), w) = post_tstat e addr payload w
                   in if \<not> ok then (Inr (tid, False, err), w)
                      else
                        case verify_set_state e addr payload of
                          Inl exn \<Rightarrow> (Inl exn, w)
                        | Inr verified \<Rightarrow>
                            if \<not> verified then (Inr (tid, False, Some VerificationFailed), w)
                            else
                              let config_updates = [];
                                  config_updates =
                                    (if key_in ''tmode'' payload
                                     then AList.update ''tmode_applied_at'' (PInt (now e))
                                            (AList.update ''tmode_set'' (dict_get payload ''tmode'')
                                               config_updates)
                                     else config_updates);
                                  config_updates =
                                    (if key_in ''t_heat'' payload
                                     then AList.update ''t_heat_applied_at'' (PInt (now e))
                                            (AList.update ''t_heat_set'' (dict_get payload ''t_heat'')
                                               config_updates)
                                     else config_updates);
                                  config_updates =
                                    (if key_in ''hold'' payload
                                     then AList.update ''hold_applied_at'' (PInt (now e))
                                            (AList.update ''hold_set'' (dict_get payload ''hold'')
                                               config_updates)
                                     else config_updates);
                                  w = (if config_updates \<noteq> []
                                       then update_device_config e tid config_updates w else w)
                              in (Inr (tid, True, None), w))"

text \<open>\<open>_execute_set_state\<close>: the result, the warnings logged and the world afterwards.
  \<open>target_ids\<close> is the one thermostat of the command, so \<open>asyncio.gather\<close> runs one
  \<open>do_one\<close>; an exception of it leaves the function.\<close>

definition execute_set_state ::
    "executor_env \<Rightarrow> env \<Rightarrow> string \<Rightarrow> string \<Rightarrow> pydict \<Rightarrow> int \<Rightarrow> world
       \<Rightarrow> (py_exn + set_state_result) \<times> log_entry list \<times> world" where
  "execute_set_state x e site_id thermostat_id params timeout_seconds w =
     (let tmode = dict_get params ''tmode'';
          hold = dict_get params ''hold'';
          t_heat = dict_get params ''t_heat''
      in if \<not> py_in tmode [PInt 0, PInt 1] then (Inr (False, Some InvalidTmode, None), [], w)
         else if \<not> py_in hold [PInt 0, PInt 1] then (Inr (False, Some InvalidHold, None), [], w)
         else
           let (params, t_heat, lg) =
                 (if py_eq tmode (PInt 0) \<and> key_in ''t_heat'' params
                  then (AList.delete ''t_heat'' params, PNone,
                        [(Warning, ''Command contained t_heat with tmode=0 - removing t_heat for safety'')])
                  else (params, t_heat, []))
           in if py_eq tmode (PInt 1) \<and> t_heat = PNone
              then (Inr (False, Some MissingTHeat, None), lg, w)
              else if py_eq tmode (PInt 0) \<and> key_in ''t_heat'' params
              then (Inr (False, Some THeatMustBeOmitted, None), lg, w)
              else
                case do_one x e site_id tmode hold t_heat thermostat_id w of
                  (Inl exn, w) \<Rightarrow> (Inl exn, lg, w)
                | (Inr (tid, ok, err), w) \<Rightarrow>
                    let results = [(tid, ok, err)];
                        all_ok = list_all (\<lambda>(tid, ok, err). ok) results;
                        first_err = (case filter (\<lambda>(tid, ok, err). \<not> ok) results of
                                       [] \<Rightarrow> None
                                     | (tid, ok, err) # rest \<Rightarrow> err)
                    in (Inr (all_ok, first_err, Some results), lg, w))"

section \<open>PollingLoop: state-change detection\<close>

text \<open>\<open>database/models.py\<close>: one reading of a thermostat.  \<open>_poll_single_and_store\<close>
  builds it with \<open>float(...)\<close> for the two temperatures and \<open>int(...)\<close> for mode,
  state, hold and override.  The fields carry the prefix \<open>s_\<close>.\<close>

record StatusRecord =
  s_thermostat_id :: string
  s_ts :: int
  s_temp :: pyfloat
  s_t_heat :: pyfloat
  s_tmode :: int
  s_tstate :: int
  s_hold :: int
  s_override :: int
  s_ip_address :: string
  s_local_temp :: "pyfloat option"
  s_last_error :: "string option"

text \<open>The diff of a detected change: field name to the pair \<open>from\<close>, \<open>to\<close>, each a
  float (the temperatures) or an int (the other fields).\<close>

datatype reading_value = FloatVal pyfloat | IntVal int

type_synonym changed_fields = "(string \<times> reading_value \<times> reading_value) list"

text \<open>\<open>_classify_change_type\<close>.\<close>

definition classify_change_type :: "changed_fields \<Rightarrow> string" where
  "classify_change_type cf =
     (if map_of cf ''tmode'' \<noteq> None \<or> map_of cf ''t_heat'' \<noteq> None \<or> map_of cf ''hold'' \<noteq> None
      then ''manual_adjustment''
      else if map_of cf ''tstate'' \<noteq> None then ''hvac_state_change''
      else if map_of cf ''temp'' \<noteq> None then ''temperature_change''
      else if map_of cf ''override'' \<noteq> None then ''override_change''
      else ''other_change'')"

text \<open>\<open>_detect_state_change\<close>, with the cache \<open>self._last_states\<close> passed in.  The
  function only reads the cache; \<open>_update_state_cache\<close> stores the reading afterwards.
  The two temperatures are floats: their difference is rounded before it is compared
  with \<open>0.5\<close>, and \<open>!=\<close> holds of a NaN setpoint even against itself.\<close>

definition detect_state_change ::
    "(string \<times> StatusRecord) list \<Rightarrow> string \<Rightarrow> StatusRecord
       \<Rightarrow> bool \<times> string \<times> changed_fields option" where
  "detect_state_change last_states tid current_status =
     (case map_of last_states tid of
        None \<Rightarrow> (False, ''first_reading'', None)
      | Some previous_status \<Rightarrow>
          let cf = [];
              significant_change = False;
              (cf, significant_change) =
                (if float_ge (float_abs (float_sub (s_temp current_status) (s_temp previous_status)))
                      (Fin (1 / 2))
                 then (AList.update ''temp''
                         (FloatVal (s_temp previous_status), FloatVal (s_temp current_status)) cf, True)
                 else (cf, significant_change));
              (cf, significant_change) =
                (if float_ne (s_t_heat current_status) (s_t_heat previous_status)
                 then (AList.update ''t_heat''
                         (FloatVal (s_t_heat previous_status), FloatVal (s_t_heat current_status)) cf,
                       True)
                 else (cf, significant_change));
              (cf, significant_change) =
                (if s_tmode current_status \<noteq> s_tmode previous_status
                 then (AList.update ''tmode''
                         (IntVal (s_tmode previous_status), IntVal (s_tmode current_status)) cf, True)
                 else (cf, significant_change));
              (cf, significant_change) =
                (if s_tstate current_status \<noteq> s_tstate previous_status
                 then (AList.update ''tstate''
                         (IntVal (s_tstate previous_status), IntVal (s_tstate current_status)) cf, True)
                 else (cf, significant_change));
              (cf, significant_change) =
                (if s_hold current_status \<noteq> s_hold previous_status
                 then (AList.update ''hold''
                         (IntVal (s_hold previous_status), IntVal (s_hold current_status)) cf, True)
                 else (cf, significant_change));
              (cf, significant_change) =
                (if s_override current_status \<noteq> s_override previous_status
                 then (AList.update ''override''
                         (IntVal (s_override previous_status), IntVal (s_override current_status)) cf,
                       True)
                 else (cf, significant_change))
          in if \<not> significant_change then (False, ''no_change'', None)
             else (True, classify_change_type cf, Some cf))"

text \<open>\<open>_update_state_cache\<close>.\<close>

definition update_state_cache ::
    "(string \<times> StatusRecord) list \<Rightarrow> string \<Rightarrow> StatusRecord \<Rightarrow> (string \<times> StatusRecord) list" where
  "update_state_cache last_states tid status = AList.update tid status last_states"

section \<open>NetworkScanner: the progressive range scan\<close>

text \<open>\<open>discovery/models.py\<close>: the result of one discovery run (the duration, a
  difference of wall-clock instants, is left out).  The fields carry the prefix \<open>dr_\<close>.\<close>

record DiscoveryResult =
  dr_devices :: "ThermostatDevice list"
  dr_method :: string
  dr_devices_tested :: nat
  dr_success_count :: nat

text \<open>
  The variables of the loop of \<open>discover_tcp_progressive\<close>, the registry
  \<open>self.known_devices\<close> it writes, and the record of the invocations of the progress
  callback: the arguments \<open>(devices_since_checkpoint, ips_scanned, ips_total)\<close> of each
  call, in order.  The callback is code of the caller; it is represented by this record
  and taken to return.
\<close>

record scan_state =
  ips_scanned :: nat
  all_devices_found :: "ThermostatDevice list"
  devices_since_checkpoint :: "ThermostatDevice list"
  known_devices :: "(string \<times> ThermostatDevice) list"
  callback_calls :: "(ThermostatDevice list \<times> nat \<times> nat) list"

text \<open>The body of \<open>for ip_str in all_ips\<close>.  \<open>get_device_details\<close> is the outcome of
  \<open>_get_device_details(ip, "tcp_scan")\<close>, which catches every exception of the probe;
  \<open>callback_given\<close> says whether a callback was passed.  The semaphore guards a single
  sequential loop and has no effect.\<close>

fun scan_loop ::
    "(string \<Rightarrow> string \<Rightarrow> ThermostatDevice option) \<Rightarrow> bool \<Rightarrow> nat \<Rightarrow> string list
       \<Rightarrow> scan_state \<Rightarrow> scan_state" where
  "scan_loop get_device_details callback_given ips_total [] st = st"
| "scan_loop get_device_details callback_given ips_total (ip_str # rest) st =
     (let st = (case get_device_details ip_str ''tcp_scan'' of
                  Some device \<Rightarrow>
                    st\<lparr>all_devices_found := all_devices_found st @ [device],
                       devices_since_checkpoint := devices_since_checkpoint st @ [device],
                       known_devices := AList.update (uuid device) device (known_devices st)\<rparr>
                | None \<Rightarrow> st);
          st = st\<lparr>ips_scanned := ips_scanned st + 1\<rparr>;
          st = (if ips_scanned st mod 10 = 0 \<or> ips_scanned st = ips_total
                then (if callback_given
                      then st\<lparr>callback_calls := callback_calls st @
                                [(devices_since_checkpoint st, ips_scanned st, ips_total)]\<rparr>
                      else st)\<lparr>devices_since_checkpoint := []\<rparr>
                else st)
      in scan_loop get_device_details callback_given ips_total rest st)"

text \<open>\<open>discover_tcp_progressive\<close>, with the candidate list of \<open>_generate_scan_ips\<close>
  passed in as \<open>all_ips\<close>.\<close>

definition discover_tcp_progressive ::
    "(string \<Rightarrow> string \<Rightarrow> ThermostatDevice option) \<Rightarrow> bool
       \<Rightarrow> (string \<times> ThermostatDevice) list \<Rightarrow> string list \<Rightarrow> DiscoveryResult \<times> scan_state" where
  "discover_tcp_progressive get_device_details callback_given known all_ips =
     (let ips_total = length all_ips;
          st = \<lparr>ips_scanned = 0, all_devices_found = [], devices_since_checkpoint = [],
                known_devices = known, callback_calls = []\<rparr>;
          st = scan_loop get_device_details callback_given ips_total all_ips st
      in (\<lparr>dr_devices = all_devices_found st, dr_method = ''tcp_scan'',
           dr_devices_tested = ips_scanned st,
           dr_success_count = length (all_devices_found st)\<rparr>, st))"

section \<open>SyncEngine: the minute upload and its checkpoint\<close>












section \<open>Registration: the local path and the remote discovery command\<close>

text \<open>\<open>DatabaseManager.get_thermostat_by_id\<close> and \<open>upsert_thermostat\<close>.  On a conflict
  the upsert keeps a stored away temperature (\<open>COALESCE\<close>) and overwrites the rest.\<close>

definition get_thermostat_by_id :: "env \<Rightarrow> string \<Rightarrow> world \<Rightarrow> ThermostatRecord option" where
  "get_thermostat_by_id e tid w =
     (if thermostats_read_fails e then None else map_of (thermostats w) tid)"

definition upsert_thermostat :: "env \<Rightarrow> ThermostatRecord \<Rightarrow> world \<Rightarrow> bool \<times> world" where
  "upsert_thermostat e device w =
     (if thermostats_write_fails e then (False, w)
      else
        let row = (case map_of (thermostats w) (r_thermostat_id device) of
                     None \<Rightarrow> device
                   | Some old \<Rightarrow>
                       device\<lparr>r_away_temp := (case r_away_temp old of
                                                 Some a \<Rightarrow> Some a
                                               | None \<Rightarrow> r_away_temp device)\<rparr>)
        in (True, w\<lparr>thermostats := AList.update (r_thermostat_id device) row (thermostats w)\<rparr>))"

text \<open>\<open>EnhancedPublicServerSync.register_thermostats\<close>: one registration request with
  the whole batch; \<open>register_ok\<close> is the outcome of its \<open>_post_with_retry\<close>.\<close>

definition register_thermostats :: "env \<Rightarrow> ThermostatRecord list \<Rightarrow> world \<Rightarrow> bool \<times> world" where
  "register_thermostats e records w =
     (if records = [] then (True, w)
      else (register_ok e records, w\<lparr>registrations := registrations w @ [records]\<rparr>))"

text \<open>The body of the loop of \<open>_register_and_configure_devices\<close> for one device: look
  the device up, upsert it, and on success read its settings and run the configuration
  policy.  A dictionary of settings is never empty, so \<open>if current_settings\<close> tests
  for \<open>None\<close>.\<close>

definition register_one ::
    "env \<Rightarrow> string \<Rightarrow> ThermostatDevice \<Rightarrow> ThermostatRecord list \<times> world
       \<Rightarrow> ThermostatRecord list \<times> world" where
  "register_one e discovery_type device acc =
     (let (registered_thermostats, w) = acc;
          existing_device = get_thermostat_by_id e (uuid device) w;
          away_temp = (case existing_device of
                         None \<Rightarrow> 50
                       | Some ex \<Rightarrow> (case r_away_temp ex of Some a \<Rightarrow> a | None \<Rightarrow> 50));
          db_record = \<lparr>r_thermostat_id = uuid device, r_ip_address = ip device,
                       r_name = name device, r_model = model device,
                       r_api_version = api_version device, r_fw_version = fw_version device,
                       r_discovery_method = discovery_method device, r_active = True,
                       r_away_temp = Some away_temp, r_last_seen = now e\<rparr>;
          (success, w) = upsert_thermostat e db_record w
      in if success
         then
           let current_settings = read_thermostat_current_settings e (ip device);
               w = (case current_settings of
                      Some s \<Rightarrow> apply_intelligent_config e device (Some s) discovery_type w
                    | None \<Rightarrow> apply_intelligent_config e device None discovery_type w)
           in (registered_thermostats @ [db_record], w)
         else (registered_thermostats, w))"

text \<open>\<open>_register_and_configure_devices\<close>, the path of every local discovery.\<close>

definition register_and_configure_devices ::
    "env \<Rightarrow> ThermostatDevice list \<Rightarrow> string \<Rightarrow> world \<Rightarrow> world" where
  "register_and_configure_devices e devs phase_name w =
     (if devs = [] then w
      else
        let discovery_type_map =
              [(''startup_phase'', ''startup''), (''tcp_first_batch'', ''startup''),
               (''periodic_discovery'', ''periodic''), (''background_tcp'', ''periodic''),
               (''tcp_additional'', ''periodic''), (''discovery'', ''startup'')];
            discovery_type = (case map_of discovery_type_map phase_name of
                                Some t \<Rightarrow> t | None \<Rightarrow> ''startup'');
            (registered_thermostats, w) = fold (register_one e discovery_type) devs ([], w)
        in if registered_thermostats \<noteq> [] \<and> public_sync_present e \<and> public_server_enabled e
           then snd (register_thermostats e registered_thermostats w)
           else w)"

text \<open>The entries of \<open>devices_found\<close> in the result of a discovery command, and the
  \<open>registration_results\<close> appended to it.\<close>

record found_device =
  fd_thermostat_id :: string
  fd_name :: string
  fd_ip :: string
  fd_discovery_method :: string

record registration_results =
  local_registration_success :: bool
  public_server_registration_success :: bool
  devices_registered :: nat
  registration_errors :: "string list"

record discovery_results =
  total_devices_found :: nat
  devices_found :: "found_device list"
  registration :: "registration_results option"

text \<open>The end of \<open>_execute_discovery_phases\<close>: the devices of all phases, deduplicated
  by a non-empty uuid, first occurrence first.\<close>

fun unique_devices :: "string list \<Rightarrow> ThermostatDevice list \<Rightarrow> ThermostatDevice list" where
  "unique_devices seen_ids [] = []"
| "unique_devices seen_ids (d # ds) =
     (if uuid d \<noteq> [] \<and> uuid d \<notin> set seen_ids
      then d # unique_devices (seen_ids @ [uuid d]) ds
      else unique_devices seen_ids ds)"

definition build_discovery_results :: "ThermostatDevice list \<Rightarrow> discovery_results" where
  "build_discovery_results all_devices =
     (let unique = unique_devices [] all_devices
      in \<lparr>total_devices_found = length unique,
          devices_found = map (\<lambda>d. \<lparr>fd_thermostat_id = uuid d, fd_name = name d, fd_ip = ip d,
                                    fd_discovery_method = discovery_method d\<rparr>) unique,
          registration = None\<rparr>)"

text \<open>The loop of \<open>_handle_device_registration\<close> that collects the devices not yet in
  the table \<open>thermostats\<close>.\<close>

fun thermostats_to_register :: "env \<Rightarrow> world \<Rightarrow> found_device list \<Rightarrow> ThermostatRecord list" where
  "thermostats_to_register e w [] = []"
| "thermostats_to_register e w (device_data # rest) =
     (case get_thermostat_by_id e (fd_thermostat_id device_data) w of
        None \<Rightarrow>
          \<lparr>r_thermostat_id = fd_thermostat_id device_data, r_ip_address = fd_ip device_data,
           r_name = fd_name device_data, r_model = ''Unknown'', r_api_version = 0,
           r_fw_version = ''Unknown'', r_discovery_method = fd_discovery_method device_data,
           r_active = True, r_away_temp = Some 50, r_last_seen = now e\<rparr>
          # thermostats_to_register e w rest
      | Some existing \<Rightarrow> thermostats_to_register e w rest)"

text \<open>\<open>_handle_device_registration\<close>, the registration step of the remote discovery
  command.  Every key it reads is set by the handler itself, so its exception handler is
  not reached.\<close>

definition handle_device_registration ::
    "env \<Rightarrow> discovery_results \<Rightarrow> world \<Rightarrow> discovery_results \<times> world" where
  "handle_device_registration e result w =
     (let devices_data = devices_found result
      in if devices_data = [] then (result, w)
         else
           let to_register = thermostats_to_register e w devices_data
           in if to_register \<noteq> [] \<and> public_sync_present e
              then
                let (registration_success, w) = register_thermostats e to_register w
                in (result\<lparr>registration := Some
                       \<lparr>local_registration_success = True,
                        public_server_registration_success = registration_success,
                        devices_registered = length to_register,
                        registration_errors =
                          (if registration_success then []
                           else [''Public server registration failed''])\<rparr>\<rparr>, w)
              else
                (result\<lparr>registration := Some
                   \<lparr>local_registration_success = True,
                    public_server_registration_success = False,
                    devices_registered = 0,
                    registration_errors = [''No new devices to register'']\<rparr>\<rparr>, w))"

text \<open>The end of \<open>execute_discovery_command\<close>: registration runs when the command's
  parameter \<open>apply_initial_config\<close> is set and at least one device was found.\<close>

definition complete_discovery_command ::
    "env \<Rightarrow> bool \<Rightarrow> ThermostatDevice list \<Rightarrow> world \<Rightarrow> discovery_results \<times> world" where
  "complete_discovery_command e apply_initial_config all_devices w =
     (let result = build_discovery_results all_devices
      in if apply_initial_config \<and> total_devices_found result > 0
         then handle_device_registration e result w
         else (result, w))"

section \<open>Auxiliary facts about dictionaries\<close>

lemma key_in_update: "key_in k (AList.update k' v d) = (k = k' \<or> key_in k d)"
  by (simp add: key_in_def update_conv')

lemma dict_get_update: "dict_get (AList.update k' v d) k = (if k = k' then v else dict_get d k)"
  by (simp add: dict_get_def update_conv')

lemma key_in_Nil: "key_in k [] = False"
  by (simp add: key_in_def)

lemma dict_get_Nil: "dict_get [] k = PNone"
  by (simp add: dict_get_def)

lemma key_in_Cons: "key_in k ((k', v) # d) = (k = k' \<or> key_in k d)"
  by (simp add: key_in_def)

lemma dict_get_Cons: "dict_get ((k', v) # d) k = (if k = k' then v else dict_get d k)"
  by (simp add: dict_get_def)

lemma map_of_dict_get: "key_in k d \<Longrightarrow> map_of d k = Some (dict_get d k)"
  by (auto simp: key_in_def dict_get_def)

lemma py_eq_PNone: "py_eq PNone (PInt n) = False"
  by (simp add: py_eq_def)

lemma py_in_01: "py_in v [PInt 0, PInt 1] = (py_eq v (PInt 0) \<or> py_eq v (PInt 1))"
  by (simp add: py_in_def)

lemma py_eq_01_not_2: "py_eq v (PInt 0) \<or> py_eq v (PInt 1) \<Longrightarrow> \<not> py_eq v (PInt 2)"
  by (cases v) (auto simp: py_eq_def split: if_splits)

lemma py_eq_int_int: "py_eq (PInt a) (PInt b) = (a = b)"
  by (simp add: py_eq_def)

lemma key_in_fold_copy:
  "key_in k (fold (\<lambda>key c. if key_in key cfg \<and> dict_get cfg key \<noteq> PNone
                           then AList.update key (dict_get cfg key) c else c) ks c0)
   = (key_in k c0 \<or> (k \<in> set ks \<and> key_in k cfg \<and> dict_get cfg k \<noteq> PNone))"
  by (induction ks arbitrary: c0) (auto simp: key_in_update)

lemma dict_get_fold_copy:
  "k \<notin> set ks \<Longrightarrow>
   dict_get (fold (\<lambda>key c. if key_in key cfg \<and> dict_get cfg key \<noteq> PNone
                           then AList.update key (dict_get cfg key) c else c) ks c0) k
   = dict_get c0 k"
  by (induction ks arbitrary: c0) (auto simp: dict_get_update)

section \<open>Auxiliary facts about the configuration policy\<close>

lemma map_of_fold_update:
  "distinct (map fst ups) \<Longrightarrow>
   map_of (fold (\<lambda>(key, v). AList.update key v) ups row) = map_of row ++ map_of ups"
proof (induction ups arbitrary: row)
  case Nil
  then show ?case by simp
next
  case (Cons p ups)
  obtain k v where p: "p = (k, v)" by (cases p)
  from Cons.prems p have notin: "map_of ups k = None" and d: "distinct (map fst ups)"
    by (auto simp: map_of_eq_None_iff)
  have "map_of (fold (\<lambda>(key, v). AList.update key v) (p # ups) row)
        = map_of (AList.update k v row) ++ map_of ups"
    using Cons.IH [OF d, of "AList.update k v row"] by (simp add: p)
  also have "\<dots> = map_of row ++ map_of (p # ups)"
    using notin by (auto simp: p update_conv' map_add_def fun_eq_iff split: option.splits)
  finally show ?case .
qed

lemma step_map_of:
  "map_of (if c then AList.update a x (AList.update b y d) else d) k
   = (if c \<and> k = a then Some x else if c \<and> k = b then Some y else map_of d k)"
  by (simp add: update_conv')

lemma step_distinct:
  "distinct (map fst d) \<Longrightarrow>
   distinct (map fst (if c then AList.update a x (AList.update b y d) else d))"
  by (simp add: distinct_update)

lemma posts_update_device_config: "posts (update_device_config e tid ups w) = posts w"
  by (simp add: update_device_config_def Let_def)

lemma posts_update_db_from_thermostat: "posts (update_db_from_thermostat e tid s w) = posts w"
  by (simp add: update_db_from_thermostat_def Let_def posts_update_device_config)

lemma posts_apply_initial_settings:
  "posts (snd (apply_initial_settings e a w)) = posts w @ [(a, [(''fmode'', PInt 0)])]"
  by (simp add: apply_initial_settings_def post_to_device_def Let_def split: http_resp.splits)

lemma device_config_apply_initial_settings:
  "device_config (snd (apply_initial_settings e a w)) = device_config w"
  by (simp add: apply_initial_settings_def post_to_device_def Let_def split: http_resp.splits)

lemma row_update_device_config:
  "\<not> device_config_write_fails e \<Longrightarrow> distinct (map fst ups) \<Longrightarrow> k \<noteq> ''updated_at'' \<Longrightarrow>
   map_of ups k = Some v \<Longrightarrow>
   \<exists>row. map_of (device_config (update_device_config e tid ups w)) tid = Some row
         \<and> map_of row k = Some v"
  by (simp add: update_device_config_def Let_def update_conv' map_of_fold_update)

text \<open>The columns written by the mirror.\<close>

lemma mirror_row:
  assumes ok: "\<not> device_config_write_fails e"
      and some: "dict_get s ''tmode'' \<noteq> PNone \<or> dict_get s ''t_heat'' \<noteq> PNone
                 \<or> dict_get s ''t_cool'' \<noteq> PNone \<or> dict_get s ''hold'' \<noteq> PNone"
  shows "\<exists>row. map_of (device_config (update_db_from_thermostat e tid s w)) tid = Some row
      \<and> (dict_get s ''tmode'' \<noteq> PNone \<longrightarrow>
           map_of row ''tmode_set'' = Some (dict_get s ''tmode'')
           \<and> map_of row ''tmode_applied_at'' = Some (PInt (now e)))
      \<and> (dict_get s ''t_heat'' \<noteq> PNone \<longrightarrow>
           map_of row ''t_heat_set'' = Some (dict_get s ''t_heat'')
           \<and> map_of row ''t_heat_applied_at'' = Some (PInt (now e)))
      \<and> (dict_get s ''t_cool'' \<noteq> PNone \<longrightarrow>
           map_of row ''t_cool_set'' = Some (dict_get s ''t_cool'')
           \<and> map_of row ''t_cool_applied_at'' = Some (PInt (now e)))
      \<and> (dict_get s ''hold'' \<noteq> PNone \<longrightarrow>
           map_of row ''hold_set'' = Some (dict_get s ''hold'')
           \<and> map_of row ''hold_applied_at'' = Some (PInt (now e)))"
proof -
  define u1 where "u1 = (if dict_get s ''tmode'' \<noteq> PNone
             then AList.update ''tmode_applied_at'' (PInt (now e))
                    (AList.update ''tmode_set'' (dict_get s ''tmode'') [])
             else [])"
  define u2 where "u2 = (if dict_get s ''t_heat'' \<noteq> PNone
             then AList.update ''t_heat_applied_at'' (PInt (now e))
                    (AList.update ''t_heat_set'' (dict_get s ''t_heat'') u1)
             else u1)"
  define u3 where "u3 = (if dict_get s ''t_cool'' \<noteq> PNone
             then AList.update ''t_cool_applied_at'' (PInt (now e))
                    (AList.update ''t_cool_set'' (dict_get s ''t_cool'') u2)
             else u2)"
  define u4 where "u4 = (if dict_get s ''hold'' \<noteq> PNone
             then AList.update ''hold_applied_at'' (PInt (now e))
                    (AList.update ''hold_set'' (dict_get s ''hold'') u3)
             else u3)"
  have m1: "map_of u1 k = (if dict_get s ''tmode'' \<noteq> PNone \<and> k = ''tmode_applied_at'' then Some (PInt (now e))
        else if dict_get s ''tmode'' \<noteq> PNone \<and> k = ''tmode_set'' then Some (dict_get s ''tmode'') else None)" for k
    unfolding u1_def by (subst step_map_of) simp
  have m2: "map_of u2 k = (if dict_get s ''t_heat'' \<noteq> PNone \<and> k = ''t_heat_applied_at'' then Some (PInt (now e))
        else if dict_get s ''t_heat'' \<noteq> PNone \<and> k = ''t_heat_set'' then Some (dict_get s ''t_heat'') else map_of u1 k)" for k
    unfolding u2_def by (rule step_map_of)
  have m3: "map_of u3 k = (if dict_get s ''t_cool'' \<noteq> PNone \<and> k = ''t_cool_applied_at'' then Some (PInt (now e))
        else if dict_get s ''t_cool'' \<noteq> PNone \<and> k = ''t_cool_set'' then Some (dict_get s ''t_cool'') else map_of u2 k)" for k
    unfolding u3_def by (rule step_map_of)
  have m4: "map_of u4 k = (if dict_get s ''hold'' \<noteq> PNone \<and> k = ''hold_applied_at'' then Some (PInt (now e))
        else if dict_get s ''hold'' \<noteq> PNone \<and> k = ''hold_set'' then Some (dict_get s ''hold'') else map_of u3 k)" for k
    unfolding u4_def by (rule step_map_of)
  have d1: "distinct (map fst u1)" unfolding u1_def by (rule step_distinct) simp
  have d2: "distinct (map fst u2)" unfolding u2_def by (rule step_distinct) (rule d1)
  have d3: "distinct (map fst u3)" unfolding u3_def by (rule step_distinct) (rule d2)
  have d4: "distinct (map fst u4)" unfolding u4_def by (rule step_distinct) (rule d3)
  have "map_of u4 ''tmode_set'' \<noteq> None \<or> map_of u4 ''t_heat_set'' \<noteq> None
        \<or> map_of u4 ''t_cool_set'' \<noteq> None \<or> map_of u4 ''hold_set'' \<noteq> None"
    using some by (auto simp add: m4 m3 m2 m1)
  then have ne: "u4 \<noteq> []"
    by auto
  have run: "update_db_from_thermostat e tid s w = update_device_config e tid u4 w"
    unfolding update_db_from_thermostat_def Let_def
    using ne unfolding u4_def u3_def u2_def u1_def by simp
  define row0 where "row0 = (case map_of (device_config w) tid of Some r \<Rightarrow> r | None \<Rightarrow> [])"
  define row where "row = AList.update ''updated_at'' (PInt (now e))
                            (fold (\<lambda>(key, v). AList.update key v) u4 row0)"
  have tbl: "map_of (device_config (update_device_config e tid u4 w)) tid = Some row"
    using ok by (simp add: update_device_config_def Let_def update_conv' row_def row0_def)
  have look: "k \<noteq> ''updated_at'' \<Longrightarrow> map_of u4 k = Some v \<Longrightarrow> map_of row k = Some v" for k v
    by (simp add: row_def update_conv' map_of_fold_update [OF d4])
  have tm: "dict_get s ''tmode'' \<noteq> PNone \<Longrightarrow>
           map_of row ''tmode_set'' = Some (dict_get s ''tmode'')
           \<and> map_of row ''tmode_applied_at'' = Some (PInt (now e))"
    by (intro conjI look) (simp_all add: m4 m3 m2 m1)
  have th: "dict_get s ''t_heat'' \<noteq> PNone \<Longrightarrow>
           map_of row ''t_heat_set'' = Some (dict_get s ''t_heat'')
           \<and> map_of row ''t_heat_applied_at'' = Some (PInt (now e))"
    by (intro conjI look) (simp_all add: m4 m3 m2 m1)
  have tc: "dict_get s ''t_cool'' \<noteq> PNone \<Longrightarrow>
           map_of row ''t_cool_set'' = Some (dict_get s ''t_cool'')
           \<and> map_of row ''t_cool_applied_at'' = Some (PInt (now e))"
    by (intro conjI look) (simp_all add: m4 m3 m2 m1)
  have ho: "dict_get s ''hold'' \<noteq> PNone \<Longrightarrow>
           map_of row ''hold_set'' = Some (dict_get s ''hold'')
           \<and> map_of row ''hold_applied_at'' = Some (PInt (now e))"
    by (intro conjI look) (simp_all add: m4 m3 m2 m1)
  show ?thesis
    unfolding run using tbl tm th tc ho by blast
qed

lemma py_eq_1_not_0: "py_eq v (PInt 1) \<Longrightarrow> \<not> py_eq v (PInt 0)"
  by (cases v) (auto simp: py_eq_def split: if_splits)

lemma py_eq_int_not_None: "py_eq v (PInt n) \<Longrightarrow> v \<noteq> PNone"
  by (auto simp: py_eq_def)

lemma preserve_branch:
  assumes "(case current_settings of
              None \<Rightarrow> read_thermostat_current_settings e (ip device)
            | Some s' \<Rightarrow> Some s') = Some s"
      and "\<not> py_eq (dict_get s ''hold'') (PInt 0)"
  shows "apply_intelligent_config e device current_settings discovery_type w
         = update_db_from_thermostat e (uuid device) s (snd (apply_initial_settings e (ip device) w))"
  using assms by (simp add: apply_intelligent_config_def Let_def)

lemma seasonal_branch:
  assumes "(case current_settings of
              None \<Rightarrow> read_thermostat_current_settings e (ip device)
            | Some s' \<Rightarrow> Some s') = Some s"
      and "py_eq (dict_get s ''hold'') (PInt 0)"
  shows "apply_intelligent_config e device current_settings discovery_type w
         = apply_seasonal_defaults_with_hold e device s (snd (apply_initial_settings e (ip device) w))"
  using assms by (simp add: apply_intelligent_config_def Let_def)

lemma seasonal_config_cases:
  "config (determine_seasonal_config d) = [(''tmode'', PInt 1), (''t_heat'', PInt 50), (''fmode'', PInt 0)]
   \<or> config (determine_seasonal_config d) = [(''tmode'', PInt 0), (''fmode'', PInt 0)]"
  by (simp add: determine_seasonal_config_def Let_def)

lemma posts_save_config_to_database: "posts (save_config_to_database e tid cfg w) = posts w"
  by (simp add: save_config_to_database_def Let_def posts_update_device_config)

lemma posts_apply_seasonal_defaults_with_hold:
  "posts (apply_seasonal_defaults_with_hold e device s w)
   = posts w @ [(ip device,
        if config (determine_seasonal_config (today e))
           = [(''tmode'', PInt 1), (''t_heat'', PInt 50), (''fmode'', PInt 0)]
        then [(''tmode'', PInt 1), (''t_heat'', PInt 50), (''hold'', PInt 1), (''fmode'', PInt 0)]
        else [(''tmode'', PInt 0), (''hold'', PInt 1), (''fmode'', PInt 0)])]"
proof -
  define cfg0 where "cfg0 = config (determine_seasonal_config (today e))"
  define cfg1 where "cfg1 = AList.update ''hold'' (PInt 1) cfg0"
  define cfg where "cfg = (if \<not> py_in (dict_get cfg1 ''tmode'') [PInt 0, PInt 1]
                 then AList.update ''tmode'' (PInt 0) cfg1 else cfg1)"
  define command where "command = fst (build_safe_thermostat_command cfg)"
  have p: "posts (apply_seasonal_defaults_with_hold e device s w) = posts w @ [(ip device, command)]"
    unfolding apply_seasonal_defaults_with_hold_def Let_def command_def cfg_def cfg1_def cfg0_def
    by (simp add: post_to_device_def posts_save_config_to_database split: http_resp.splits)
  from seasonal_config_cases [of "today e"]
  have "command = (if cfg0 = [(''tmode'', PInt 1), (''t_heat'', PInt 50), (''fmode'', PInt 0)]
        then [(''tmode'', PInt 1), (''t_heat'', PInt 50), (''hold'', PInt 1), (''fmode'', PInt 0)]
        else [(''tmode'', PInt 0), (''hold'', PInt 1), (''fmode'', PInt 0)])"
    unfolding cfg0_def [symmetric]
  proof
    assume h: "cfg0 = [(''tmode'', PInt 1), (''t_heat'', PInt 50), (''fmode'', PInt 0)]"
    show ?thesis
      unfolding command_def cfg_def cfg1_def h
      by (simp add: build_safe_thermostat_command_def Let_def key_in_Cons key_in_Nil
                dict_get_Cons dict_get_Nil py_in_01 py_eq_int_int)
  next
    assume h: "cfg0 = [(''tmode'', PInt 0), (''fmode'', PInt 0)]"
    show ?thesis
      unfolding command_def cfg_def cfg1_def h
      by (simp add: build_safe_thermostat_command_def Let_def key_in_Cons key_in_Nil
                dict_get_Cons dict_get_Nil py_in_01 py_eq_int_int)
  qed
  then show ?thesis
    by (simp add: p cfg0_def)
qed

section \<open>Seasonal configuration\<close>

text \<open>
  Claim C3.  The seasonal configuration depends on the date only.  Every date from
  November 16 through April 14 (across the turn of the year) gives the heating
  configuration, mode HEAT (1) with setpoint 50 and the fan off; every date from April 15
  through November 15 gives mode OFF (0) with the fan off; no date gives mode COOL (2).
\<close>

theorem determine_seasonal_config_by_date:
  "((month d = 11 \<and> 16 \<le> day d) \<or> 11 < month d \<or> month d < 4 \<or> (month d = 4 \<and> day d \<le> 14)
      \<longrightarrow> determine_seasonal_config d =
            \<lparr>season = ''heating'',
             config = [(''tmode'', PInt 1), (''t_heat'', PInt 50), (''fmode'', PInt 0)]\<rparr>)
   \<and> ((month d = 4 \<and> 15 \<le> day d) \<or> (4 < month d \<and> month d < 11) \<or> (month d = 11 \<and> day d \<le> 15)
      \<longrightarrow> determine_seasonal_config d =
            \<lparr>season = ''cooling'', config = [(''tmode'', PInt 0), (''fmode'', PInt 0)]\<rparr>)
   \<and> \<not> py_eq (dict_get (config (determine_seasonal_config d)) ''tmode'') (PInt 2)"
  by (auto simp: determine_seasonal_config_def date_le_def Let_def dict_get_def py_eq_def)

theorem determine_seasonal_config_by_date_witness:
  "determine_seasonal_config \<lparr>year = 2025, month = 1, day = 10\<rparr> =
     \<lparr>season = ''heating'',
      config = [(''tmode'', PInt 1), (''t_heat'', PInt 50), (''fmode'', PInt 0)]\<rparr>
   \<and> determine_seasonal_config \<lparr>year = 2025, month = 11, day = 15\<rparr> =
     \<lparr>season = ''cooling'', config = [(''tmode'', PInt 0), (''fmode'', PInt 0)]\<rparr>"
  using determine_seasonal_config_by_date [of "\<lparr>year = 2025, month = 1, day = 10\<rparr>"]
        determine_seasonal_config_by_date [of "\<lparr>year = 2025, month = 11, day = 15\<rparr>"]
  by simp

section \<open>Safe command construction\<close>

text \<open>
  Claim C1, as the code has it.  For every configuration the built command never carries
  mode COOL (2): its mode, when present, is 0 or 1.  It never carries \<open>t_cool\<close>.  A
  non-null mode other than 0 or 1 is sent as OFF (0) and a warning is logged.  The command
  carries \<open>t_heat\<close> exactly when its mode is HEAT (1) and the configuration supplies a
  non-null \<open>t_heat\<close>.
\<close>

theorem build_safe_thermostat_command_safe:
  "(case build_safe_thermostat_command cfg of (command, lg) \<Rightarrow>
      \<not> py_eq (dict_get command ''tmode'') (PInt 2)
    \<and> (key_in ''tmode'' command \<longrightarrow>
          py_eq (dict_get command ''tmode'') (PInt 0) \<or> py_eq (dict_get command ''tmode'') (PInt 1))
    \<and> \<not> key_in ''t_cool'' command
    \<and> (key_in ''tmode'' cfg \<and> dict_get cfg ''tmode'' \<noteq> PNone
          \<and> \<not> py_in (dict_get cfg ''tmode'') [PInt 0, PInt 1]
        \<longrightarrow> map_of command ''tmode'' = Some (PInt 0)
            \<and> (Warning, ''Invalid tmode - using OFF mode'') \<in> set lg)
    \<and> (key_in ''t_heat'' command \<longleftrightarrow>
          py_eq (dict_get command ''tmode'') (PInt 1)
          \<and> key_in ''t_heat'' cfg \<and> dict_get cfg ''t_heat'' \<noteq> PNone))"
proof -
  define s where "s =
            (if key_in ''tmode'' cfg \<and> dict_get cfg ''tmode'' \<noteq> PNone
             then (if py_in (dict_get cfg ''tmode'') [PInt 0, PInt 1]
                   then (AList.update ''tmode'' (dict_get cfg ''tmode'') [], [])
                   else (AList.update ''tmode'' (PInt 0) [],
                         [(Warning, ''Invalid tmode - using OFF mode'')]))
             else ([], []))"
  define c1 where "c1 =
            (if py_eq (dict_get (fst s) ''tmode'') (PInt 1)
                \<and> key_in ''t_heat'' cfg \<and> dict_get cfg ''t_heat'' \<noteq> PNone
             then AList.update ''t_heat'' (dict_get cfg ''t_heat'') (fst s)
             else fst s)"
  define c2 where "c2 = fold (\<lambda>key c. if key_in key cfg \<and> dict_get cfg key \<noteq> PNone
                           then AList.update key (dict_get cfg key) c else c)
                 [''hold'', ''fmode''] c1"
  have b: "build_safe_thermostat_command cfg = (c2, snd s)"
    unfolding build_safe_thermostat_command_def c2_def c1_def s_def Let_def split_def ..
  have s_key: "key_in k (fst s)
      = (k = ''tmode'' \<and> key_in ''tmode'' cfg \<and> dict_get cfg ''tmode'' \<noteq> PNone)" for k
    by (simp add: s_def key_in_update key_in_Nil del: update.simps)
  have s_get: "dict_get (fst s) ''tmode'' =
      (if key_in ''tmode'' cfg \<and> dict_get cfg ''tmode'' \<noteq> PNone
       then (if py_in (dict_get cfg ''tmode'') [PInt 0, PInt 1]
             then dict_get cfg ''tmode'' else PInt 0)
       else PNone)"
    by (simp add: s_def dict_get_update dict_get_Nil del: update.simps)
  have s_log: "key_in ''tmode'' cfg \<and> dict_get cfg ''tmode'' \<noteq> PNone
          \<and> \<not> py_in (dict_get cfg ''tmode'') [PInt 0, PInt 1]
       \<Longrightarrow> (Warning, ''Invalid tmode - using OFF mode'') \<in> set (snd s)"
    by (simp add: s_def)
  have c1_key: "key_in k c1
      = (key_in k (fst s) \<or> (k = ''t_heat'' \<and> py_eq (dict_get (fst s) ''tmode'') (PInt 1)
                \<and> key_in ''t_heat'' cfg \<and> dict_get cfg ''t_heat'' \<noteq> PNone))" for k
    by (auto simp add: c1_def key_in_update)
  have c1_get: "dict_get c1 ''tmode'' = dict_get (fst s) ''tmode''"
    by (simp add: c1_def dict_get_update)
  have c2_key: "key_in k c2
      = (key_in k c1 \<or> (k \<in> {''hold'', ''fmode''} \<and> key_in k cfg \<and> dict_get cfg k \<noteq> PNone))"
    for k
    unfolding c2_def by (subst key_in_fold_copy) simp
  have c2_get: "dict_get c2 ''tmode'' = dict_get (fst s) ''tmode''"
    unfolding c2_def by (subst dict_get_fold_copy) (simp_all add: c1_get)
  have mode01: "key_in ''tmode'' c2 \<Longrightarrow>
      py_eq (dict_get c2 ''tmode'') (PInt 0) \<or> py_eq (dict_get c2 ''tmode'') (PInt 1)"
    by (simp add: c2_key c1_key s_key c2_get s_get py_in_01 py_eq_int_int)
  have not2: "\<not> py_eq (dict_get c2 ''tmode'') (PInt 2)"
    using py_eq_01_not_2 [of "dict_get cfg ''tmode''"]
    by (simp add: c2_get s_get py_in_01 py_eq_int_int py_eq_PNone)
  have nocool: "\<not> key_in ''t_cool'' c2"
    by (simp add: c2_key c1_key s_key)
  have clamp: "key_in ''tmode'' cfg \<and> dict_get cfg ''tmode'' \<noteq> PNone
          \<and> \<not> py_in (dict_get cfg ''tmode'') [PInt 0, PInt 1]
       \<Longrightarrow> map_of c2 ''tmode'' = Some (PInt 0)"
    using map_of_dict_get [of "''tmode''" c2]
    by (simp add: c2_key c1_key s_key c2_get s_get)
  have heat: "key_in ''t_heat'' c2 \<longleftrightarrow>
          py_eq (dict_get c2 ''tmode'') (PInt 1)
          \<and> key_in ''t_heat'' cfg \<and> dict_get cfg ''t_heat'' \<noteq> PNone"
    by (simp add: c2_key c1_key s_key c2_get)
  show ?thesis
    using mode01 not2 nocool clamp s_log heat by (simp add: b)
qed

theorem build_safe_thermostat_command_safe_witness:
  "build_safe_thermostat_command [(''tmode'', PInt 2), (''t_heat'', PInt 70), (''t_cool'', PInt 60)]
     = ([(''tmode'', PInt 0)], [(Warning, ''Invalid tmode - using OFF mode'')])
   \<and> build_safe_thermostat_command [(''tmode'', PInt 1), (''t_heat'', PInt 50), (''hold'', PInt 1)]
     = ([(''tmode'', PInt 1), (''t_heat'', PInt 50), (''hold'', PInt 1)], [])"
  using build_safe_thermostat_command_safe
          [of "[(''tmode'', PInt 2), (''t_heat'', PInt 70), (''t_cool'', PInt 60)]"]
        build_safe_thermostat_command_safe
          [of "[(''tmode'', PInt 1), (''t_heat'', PInt 50), (''hold'', PInt 1)]"]
  by (simp add: build_safe_thermostat_command_def Let_def key_in_Cons key_in_Nil
                dict_get_Cons dict_get_Nil py_in_01 py_eq_int_int)

text \<open>
  The configuration \<open>{tmode: 1, hold: 1}\<close> has mode HEAT and no setpoint: the command
  is \<open>{tmode: 1, hold: 1}\<close>, in HEAT mode without \<open>t_heat\<close>.
\<close>

theorem build_safe_thermostat_command_heat_without_setpoint:
  "\<not> (key_in ''t_heat'' (fst (build_safe_thermostat_command [(''tmode'', PInt 1), (''hold'', PInt 1)]))
       \<longleftrightarrow> py_eq (dict_get (fst (build_safe_thermostat_command
                                     [(''tmode'', PInt 1), (''hold'', PInt 1)])) ''tmode'') (PInt 1))"
  by (simp add: build_safe_thermostat_command_def Let_def key_in_Cons key_in_Nil
                dict_get_Cons dict_get_Nil py_in_01 py_eq_int_int)

section \<open>Held devices are left alone\<close>

text \<open>
  Claim C2.  When the settings probed from a device (handed in by the caller, or read by
  the policy itself) report hold = 1, \<open>apply_intelligent_config\<close> issues exactly one
  write to the device, the fan-off baseline \<open>{fmode: 0}\<close>, hence no write of mode or
  setpoint.  Provided the store accepts the update, the row of the device in
  \<open>device_config\<close> then holds the reported mode, heat setpoint, cool setpoint (each
  when the device reported one) and hold in \<open>tmode_set\<close>, \<open>t_heat_set\<close>,
  \<open>t_cool_set\<close>, \<open>hold_set\<close>, with the instant of the update in the matching
  \<open>_applied_at\<close> columns.
\<close>

theorem hold_enabled_device_untouched:
  assumes probe: "(case current_settings of
                     None \<Rightarrow> read_thermostat_current_settings e (ip device)
                   | Some s' \<Rightarrow> Some s') = Some s"
      and hold1: "py_eq (dict_get s ''hold'') (PInt 1)"
  shows "posts (apply_intelligent_config e device current_settings discovery_type w)
           = posts w @ [(ip device, [(''fmode'', PInt 0)])]
       \<and> (\<not> device_config_write_fails e \<longrightarrow>
            (\<exists>row. map_of (device_config
                              (apply_intelligent_config e device current_settings discovery_type w))
                            (uuid device) = Some row
               \<and> (dict_get s ''tmode'' \<noteq> PNone \<longrightarrow>
                    map_of row ''tmode_set'' = Some (dict_get s ''tmode'')
                    \<and> map_of row ''tmode_applied_at'' = Some (PInt (now e)))
               \<and> (dict_get s ''t_heat'' \<noteq> PNone \<longrightarrow>
                    map_of row ''t_heat_set'' = Some (dict_get s ''t_heat'')
                    \<and> map_of row ''t_heat_applied_at'' = Some (PInt (now e)))
               \<and> (dict_get s ''t_cool'' \<noteq> PNone \<longrightarrow>
                    map_of row ''t_cool_set'' = Some (dict_get s ''t_cool'')
                    \<and> map_of row ''t_cool_applied_at'' = Some (PInt (now e)))
               \<and> map_of row ''hold_set'' = Some (dict_get s ''hold'')
               \<and> map_of row ''hold_applied_at'' = Some (PInt (now e))))"
proof -
  have h0: "\<not> py_eq (dict_get s ''hold'') (PInt 0)"
    using hold1 by (rule py_eq_1_not_0)
  have hn: "dict_get s ''hold'' \<noteq> PNone"
    using hold1 by (rule py_eq_int_not_None)
  note run = preserve_branch [OF probe h0, of discovery_type w]
  have p: "posts (apply_intelligent_config e device current_settings discovery_type w)
           = posts w @ [(ip device, [(''fmode'', PInt 0)])]"
    by (simp add: run posts_update_db_from_thermostat posts_apply_initial_settings)
  have m: ?thesis if ok: "\<not> device_config_write_fails e"
    using mirror_row [OF ok, of s "uuid device" "snd (apply_initial_settings e (ip device) w)"] hn p
    unfolding run by simp
  show ?thesis
    using p m by blast
qed

theorem hold_enabled_device_untouched_witness:
  "posts (apply_intelligent_config
            \<lparr>today = \<lparr>year = 2025, month = 7, day = 4\<rparr>, now = 1000, weekday = 4, hour = 12,
             minute = 30, device_answers_post = (\<lambda>n a p. Resp 200 []),
             device_answers_get = (\<lambda>a. Resp 200 [(''tmode'', PInt 1), (''t_heat'', PInt 68),
                                          (''hold'', PInt 1)]),
             device_config_write_fails = False, thermostats_read_fails = False,
             thermostats_write_fails = False, public_sync_present = True,
             public_server_enabled = True, register_ok = (\<lambda>rs. True)\<rparr>
            \<lparr>ip = ''10.0.60.5'', uuid = ''5cdad4'', name = ''hall'', model = ''CT50'',
             api_version = 113, fw_version = ''1.04'', base_url = ''http://10.0.60.5/tstat'',
             discovery_method = ''udp_multicast'', last_seen = 0\<rparr>
            None ''startup''
            \<lparr>posts = [], device_config = [], thermostats = [], registrations = []\<rparr>)
     = [(''10.0.60.5'', [(''fmode'', PInt 0)])]
   \<and> (\<exists>row. map_of (device_config (apply_intelligent_config
            \<lparr>today = \<lparr>year = 2025, month = 7, day = 4\<rparr>, now = 1000, weekday = 4, hour = 12,
             minute = 30, device_answers_post = (\<lambda>n a p. Resp 200 []),
             device_answers_get = (\<lambda>a. Resp 200 [(''tmode'', PInt 1), (''t_heat'', PInt 68),
                                          (''hold'', PInt 1)]),
             device_config_write_fails = False, thermostats_read_fails = False,
             thermostats_write_fails = False, public_sync_present = True,
             public_server_enabled = True, register_ok = (\<lambda>rs. True)\<rparr>
            \<lparr>ip = ''10.0.60.5'', uuid = ''5cdad4'', name = ''hall'', model = ''CT50'',
             api_version = 113, fw_version = ''1.04'', base_url = ''http://10.0.60.5/tstat'',
             discovery_method = ''udp_multicast'', last_seen = 0\<rparr>
            None ''startup''
            \<lparr>posts = [], device_config = [], thermostats = [], registrations = []\<rparr>))
          ''5cdad4'' = Some row
        \<and> map_of row ''tmode_set'' = Some (PInt 1)
        \<and> map_of row ''t_heat_set'' = Some (PInt 68)
        \<and> map_of row ''hold_set'' = Some (PInt 1))"
proof -
  let ?e = "\<lparr>today = \<lparr>year = 2025, month = 7, day = 4\<rparr>, now = 1000, weekday = 4, hour = 12,
             minute = 30, device_answers_post = (\<lambda>n a p. Resp 200 []),
             device_answers_get = (\<lambda>a. Resp 200 [(''tmode'', PInt 1), (''t_heat'', PInt 68),
                                          (''hold'', PInt 1)]),
             device_config_write_fails = False, thermostats_read_fails = False,
             thermostats_write_fails = False, public_sync_present = True,
             public_server_enabled = True, register_ok = (\<lambda>rs. True)\<rparr>"
  let ?d = "\<lparr>ip = ''10.0.60.5'', uuid = ''5cdad4'', name = ''hall'', model = ''CT50'',
             api_version = 113, fw_version = ''1.04'', base_url = ''http://10.0.60.5/tstat'',
             discovery_method = ''udp_multicast'', last_seen = 0\<rparr>"
  let ?s = "[(''tmode'', PInt 1), (''t_heat'', PInt 68), (''t_cool'', PNone), (''hold'', PInt 1)]"
  have probe: "(case None of
                  None \<Rightarrow> read_thermostat_current_settings ?e (ip ?d)
                | Some s' \<Rightarrow> Some s') = Some ?s"
    by (simp add: read_thermostat_current_settings_def dict_get_Cons dict_get_Nil)
  have hold1: "py_eq (dict_get ?s ''hold'') (PInt 1)"
    by (simp add: dict_get_Cons py_eq_int_int)
  from hold_enabled_device_untouched [OF probe hold1, where discovery_type = "''startup''"
         and w = "\<lparr>posts = [], device_config = [], thermostats = [], registrations = []\<rparr>"]
  show ?thesis
    by (auto simp add: dict_get_Cons)
qed

section \<open>Only hold = 0 hands the device to the seasonal defaults\<close>

text \<open>
  Claim C10.  With settings probed from the device, \<open>apply_intelligent_config\<close> sends
  a command that sets mode, setpoint or hold exactly when the reported hold equals 0.
  When the answer carries no hold field (hold is \<open>None\<close>) the device is treated like
  a held one: the only write is the fan-off baseline, and (the store accepting the
  update) the reported mode and setpoints are mirrored into \<open>device_config\<close>.
\<close>

theorem seasonal_defaults_only_when_hold_is_zero:
  assumes probe: "(case current_settings of
                     None \<Rightarrow> read_thermostat_current_settings e (ip device)
                   | Some s' \<Rightarrow> Some s') = Some s"
  shows "((\<exists>p \<in> set (drop (length (posts w))
                       (posts (apply_intelligent_config e device current_settings discovery_type w))).
             key_in ''tmode'' (snd p) \<or> key_in ''t_heat'' (snd p) \<or> key_in ''hold'' (snd p))
          \<longleftrightarrow> py_eq (dict_get s ''hold'') (PInt 0))
       \<and> (dict_get s ''hold'' = PNone \<longrightarrow>
            posts (apply_intelligent_config e device current_settings discovery_type w)
              = posts w @ [(ip device, [(''fmode'', PInt 0)])]
            \<and> (\<not> device_config_write_fails e
                 \<and> (dict_get s ''tmode'' \<noteq> PNone \<or> dict_get s ''t_heat'' \<noteq> PNone
                      \<or> dict_get s ''t_cool'' \<noteq> PNone) \<longrightarrow>
                (\<exists>row. map_of (device_config
                              (apply_intelligent_config e device current_settings discovery_type w))
                            (uuid device) = Some row
                   \<and> (dict_get s ''tmode'' \<noteq> PNone \<longrightarrow>
                        map_of row ''tmode_set'' = Some (dict_get s ''tmode'')
                        \<and> map_of row ''tmode_applied_at'' = Some (PInt (now e)))
                   \<and> (dict_get s ''t_heat'' \<noteq> PNone \<longrightarrow>
                        map_of row ''t_heat_set'' = Some (dict_get s ''t_heat'')
                        \<and> map_of row ''t_heat_applied_at'' = Some (PInt (now e)))
                   \<and> (dict_get s ''t_cool'' \<noteq> PNone \<longrightarrow>
                        map_of row ''t_cool_set'' = Some (dict_get s ''t_cool'')
                        \<and> map_of row ''t_cool_applied_at'' = Some (PInt (now e))))))"
proof -
  let ?w' = "apply_intelligent_config e device current_settings discovery_type w"
  let ?w1 = "snd (apply_initial_settings e (ip device) w)"
  have writes: "(\<exists>p \<in> set (drop (length (posts w)) (posts ?w')).
             key_in ''tmode'' (snd p) \<or> key_in ''t_heat'' (snd p) \<or> key_in ''hold'' (snd p))
          \<longleftrightarrow> py_eq (dict_get s ''hold'') (PInt 0)"
  proof (cases "py_eq (dict_get s ''hold'') (PInt 0)")
    case True
    show ?thesis
      by (simp add: seasonal_branch [OF probe True] True posts_apply_seasonal_defaults_with_hold
                    posts_apply_initial_settings key_in_Cons key_in_Nil)
  next
    case False
    show ?thesis
      by (simp add: preserve_branch [OF probe False] False posts_update_db_from_thermostat
                    posts_apply_initial_settings key_in_Cons key_in_Nil)
  qed
  have none: ?thesis if hn: "dict_get s ''hold'' = PNone"
  proof -
    have h0: "\<not> py_eq (dict_get s ''hold'') (PInt 0)"
      by (simp add: hn py_eq_PNone)
    note run = preserve_branch [OF probe h0, of discovery_type w]
    have p: "posts ?w' = posts w @ [(ip device, [(''fmode'', PInt 0)])]"
      by (simp add: run posts_update_db_from_thermostat posts_apply_initial_settings)
    have m: "\<exists>row. map_of (device_config ?w') (uuid device) = Some row
                   \<and> (dict_get s ''tmode'' \<noteq> PNone \<longrightarrow>
                        map_of row ''tmode_set'' = Some (dict_get s ''tmode'')
                        \<and> map_of row ''tmode_applied_at'' = Some (PInt (now e)))
                   \<and> (dict_get s ''t_heat'' \<noteq> PNone \<longrightarrow>
                        map_of row ''t_heat_set'' = Some (dict_get s ''t_heat'')
                        \<and> map_of row ''t_heat_applied_at'' = Some (PInt (now e)))
                   \<and> (dict_get s ''t_cool'' \<noteq> PNone \<longrightarrow>
                        map_of row ''t_cool_set'' = Some (dict_get s ''t_cool'')
                        \<and> map_of row ''t_cool_applied_at'' = Some (PInt (now e)))"
      if ok: "\<not> device_config_write_fails e"
        and some: "dict_get s ''tmode'' \<noteq> PNone \<or> dict_get s ''t_heat'' \<noteq> PNone
                      \<or> dict_get s ''t_cool'' \<noteq> PNone"
    proof -
      from some have some': "dict_get s ''tmode'' \<noteq> PNone \<or> dict_get s ''t_heat'' \<noteq> PNone
                 \<or> dict_get s ''t_cool'' \<noteq> PNone \<or> dict_get s ''hold'' \<noteq> PNone"
        by blast
      from mirror_row [OF ok some', of "uuid device" ?w1]
      show ?thesis unfolding run by blast
    qed
    show ?thesis
      using writes p m by blast
  qed
  show ?thesis
    using writes none by blast
qed

theorem seasonal_defaults_only_when_hold_is_zero_witness:
  "posts (apply_intelligent_config
            \<lparr>today = \<lparr>year = 2025, month = 7, day = 4\<rparr>, now = 1000, weekday = 4, hour = 12,
             minute = 30, device_answers_post = (\<lambda>n a p. Resp 200 []),
             device_answers_get = (\<lambda>a. Resp 200 [(''tmode'', PInt 1), (''t_heat'', PInt 68)]),
             device_config_write_fails = False, thermostats_read_fails = False,
             thermostats_write_fails = False, public_sync_present = True,
             public_server_enabled = True, register_ok = (\<lambda>rs. True)\<rparr>
            \<lparr>ip = ''10.0.60.5'', uuid = ''5cdad4'', name = ''hall'', model = ''CT50'',
             api_version = 113, fw_version = ''1.04'', base_url = ''http://10.0.60.5/tstat'',
             discovery_method = ''udp_multicast'', last_seen = 0\<rparr>
            None ''periodic''
            \<lparr>posts = [], device_config = [], thermostats = [], registrations = []\<rparr>)
     = [(''10.0.60.5'', [(''fmode'', PInt 0)])]"
proof -
  let ?e = "\<lparr>today = \<lparr>year = 2025, month = 7, day = 4\<rparr>, now = 1000, weekday = 4, hour = 12,
             minute = 30, device_answers_post = (\<lambda>n a p. Resp 200 []),
             device_answers_get = (\<lambda>a. Resp 200 [(''tmode'', PInt 1), (''t_heat'', PInt 68)]),
             device_config_write_fails = False, thermostats_read_fails = False,
             thermostats_write_fails = False, public_sync_present = True,
             public_server_enabled = True, register_ok = (\<lambda>rs. True)\<rparr>"
  let ?d = "\<lparr>ip = ''10.0.60.5'', uuid = ''5cdad4'', name = ''hall'', model = ''CT50'',
             api_version = 113, fw_version = ''1.04'', base_url = ''http://10.0.60.5/tstat'',
             discovery_method = ''udp_multicast'', last_seen = 0\<rparr>"
  let ?s = "[(''tmode'', PInt 1), (''t_heat'', PInt 68), (''t_cool'', PNone), (''hold'', PNone)]"
  have probe: "(case None of
                  None \<Rightarrow> read_thermostat_current_settings ?e (ip ?d)
                | Some s' \<Rightarrow> Some s') = Some ?s"
    by (simp add: read_thermostat_current_settings_def dict_get_Cons dict_get_Nil)
  from seasonal_defaults_only_when_hold_is_zero [OF probe, where discovery_type = "''periodic''"
         and w = "\<lparr>posts = [], device_config = [], thermostats = [], registrations = []\<rparr>"]
  show ?thesis
    by (simp add: dict_get_Cons)
qed

section \<open>The set_state command\<close>

lemma key_in_delete: "key_in k (AList.delete k d) = False"
  by (simp add: key_in_def delete_conv')

lemma py_eq_0_not_1: "py_eq v (PInt 0) \<Longrightarrow> \<not> py_eq v (PInt 1)"
  by (cases v) (auto simp: py_eq_def split: if_splits)

text \<open>The validation of \<open>execute_set_state\<close> with the stripping step made explicit.\<close>

lemma execute_set_state_unfold:
  fixes params :: pydict
  defines "tmode \<equiv> dict_get params ''tmode''"
      and "hold \<equiv> dict_get params ''hold''"
      and "strip \<equiv> py_eq (dict_get params ''tmode'') (PInt 0) \<and> key_in ''t_heat'' params"
  defines "params' \<equiv> (if strip then AList.delete ''t_heat'' params else params)"
      and "t_heat \<equiv> (if strip then PNone else dict_get params ''t_heat'')"
      and "lg \<equiv> (if strip
             then [(Warning, ''Command contained t_heat with tmode=0 - removing t_heat for safety'')]
             else [])"
  shows "execute_set_state x e site_id tid params timeout_seconds w =
      (if \<not> py_in tmode [PInt 0, PInt 1] then (Inr (False, Some InvalidTmode, None), [], w)
       else if \<not> py_in hold [PInt 0, PInt 1] then (Inr (False, Some InvalidHold, None), [], w)
       else if py_eq tmode (PInt 1) \<and> t_heat = PNone
            then (Inr (False, Some MissingTHeat, None), lg, w)
       else if py_eq tmode (PInt 0) \<and> key_in ''t_heat'' params'
            then (Inr (False, Some THeatMustBeOmitted, None), lg, w)
       else
                case do_one x e site_id tmode hold t_heat tid w of
                  (Inl exn, w) \<Rightarrow> (Inl exn, lg, w)
                | (Inr (tid, ok, err), w) \<Rightarrow>
                    let results = [(tid, ok, err)];
                        all_ok = list_all (\<lambda>(tid, ok, err). ok) results;
                        first_err = (case filter (\<lambda>(tid, ok, err). \<not> ok) results of
                                       [] \<Rightarrow> None
                                     | (tid, ok, err) # rest \<Rightarrow> err)
                    in (Inr (all_ok, first_err, Some results), lg, w))"
  unfolding execute_set_state_def Let_def lg_def t_heat_def params'_def strip_def
      tmode_def hold_def
  by (simp cong del: prod.case_cong_weak sum.case_cong_weak)

lemma do_one_error:
  "fst (do_one x e site_id tmode hold t_heat tid w) \<noteq> Inr (tid', ok', Some THeatMustBeOmitted)"
  by (simp add: do_one_def post_tstat_def post_to_device_def Let_def split_def
           split: option.splits sum.splits http_resp.splits)

text \<open>
  Claim C9.  The rejection \<open>t_heat must be omitted when tmode == 0\<close> is dead code: when
  the mode is 0 and \<open>t_heat\<close> is supplied, the stripping step has removed the key
  before the check, so for no input does \<open>set_state\<close> return that error, whatever the
  success flag and the extra payload.
\<close>

theorem set_state_never_rejects_stripped_t_heat:
  "fst (execute_set_state x e site_id tid params timeout_seconds w)
     \<noteq> Inr (ok, Some THeatMustBeOmitted, extra)"
proof -
  define strip where "strip = (py_eq (dict_get params ''tmode'') (PInt 0) \<and> key_in ''t_heat'' params)"
  define params' where "params' = (if strip then AList.delete ''t_heat'' params else params)"
  define t_heat where "t_heat = (if strip then PNone else dict_get params ''t_heat'')"
  have dead: "\<not> (py_eq (dict_get params ''tmode'') (PInt 0) \<and> key_in ''t_heat'' params')"
    by (simp add: params'_def strip_def key_in_delete)
  note run = execute_set_state_unfold [of x e site_id tid params timeout_seconds w,
      folded strip_def, folded params'_def t_heat_def]
  show ?thesis
  proof (cases "do_one x e site_id (dict_get params ''tmode'') (dict_get params ''hold'') t_heat tid w")
    case (Pair r w')
    show ?thesis
    proof (cases r)
      case (Inl exn)
      then show ?thesis using Pair dead by (auto simp add: run)
    next
      case (Inr t)
      obtain tid' ok' err' where t: "t = (tid', ok', err')" by (cases t)
      have "err' \<noteq> Some THeatMustBeOmitted"
        using do_one_error [of x e site_id "dict_get params ''tmode''" "dict_get params ''hold''"
                t_heat tid w tid' ok'] Pair Inr t by auto
      then show ?thesis using Pair Inr t dead by (auto simp add: run)
    qed
  qed
qed

lemma verify_set_state_off:
  "py_eq tmode (PInt 0) \<Longrightarrow>
   verify_set_state e addr [(''tmode'', tmode), (''hold'', hold)]
   = Inr (case device_answers_get e addr of
            Resp status body \<Rightarrow>
              200 \<le> status \<and> status < 300 \<and> body \<noteq> []
              \<and> py_eq (dict_get body ''tmode'') (PInt 0) \<and> py_eq (dict_get body ''hold'') hold
          | ConnError \<Rightarrow> False)"
  by (auto simp add: verify_set_state_def get_tstat_readback_def Let_def dict_get_Cons
           split: http_resp.splits)

lemma do_one_off:
  assumes "py_eq tmode (PInt 0)" and "resolve_thermostat_ip x site_id tid = Some addr" and "addr \<noteq> []"
  shows "do_one x e site_id tmode hold t_heat tid w =
     (let payload = [(''tmode'', tmode), (''hold'', hold)];
          w1 = w\<lparr>posts := posts w @ [(addr, payload)]\<rparr>
      in case device_answers_post e (length (posts w)) addr payload of
           ConnError \<Rightarrow> (Inr (tid, False, Some PostFailed), w1)
         | Resp status body \<Rightarrow>
             if \<not> (200 \<le> status \<and> status < 300)
             then (Inr (tid, False, Some (DeviceHTTP status)), w1)
             else if verify_set_state e addr payload \<noteq> Inr True
             then (Inr (tid, False, Some VerificationFailed), w1)
             else (Inr (tid, True, None),
                   update_device_config e tid
                     [(''tmode_set'', tmode), (''tmode_applied_at'', PInt (now e)),
                      (''hold_set'', hold), (''hold_applied_at'', PInt (now e))] w1))"
  using assms py_eq_0_not_1 [OF assms(1)] verify_set_state_off [OF assms(1), of e addr hold]
  by (simp add: do_one_def post_tstat_def post_to_device_def Let_def key_in_Cons key_in_Nil
                dict_get_Cons
           split: http_resp.splits)

lemma do_one_not_found:
  assumes "resolve_thermostat_ip x site_id tid = None \<or> resolve_thermostat_ip x site_id tid = Some []"
  shows "do_one x e site_id tmode hold t_heat tid w = (Inr (tid, False, Some IPNotFound), w)"
  using assms by (auto simp add: do_one_def)

text \<open>
  Claim C5.  A \<open>set_state\<close> command with mode 0, a hold of 0 or 1 and a \<open>t_heat\<close>
  is not rejected: the setpoint is stripped and a warning logged.  When the thermostat's
  address resolves, exactly one POST is issued, with the payload
  \<open>{tmode: 0, hold: <given>}\<close>, and the command succeeds if and only if the device
  accepts the POST (a 2xx status) and the read-back of \<open>/tstat\<close> is a non-empty 2xx
  answer with mode 0 and the requested hold.  When the address does not resolve there is
  no device to write to: nothing is posted and the command fails with \<open>IP not found\<close>.
\<close>

theorem set_state_off_strips_t_heat:
  assumes off: "py_eq (dict_get params ''tmode'') (PInt 0)"
      and hold: "py_in (dict_get params ''hold'') [PInt 0, PInt 1]"
      and heat: "key_in ''t_heat'' params"
  shows "(case execute_set_state x e site_id tid params timeout_seconds w of (res, lg, w') \<Rightarrow>
            (Warning, ''Command contained t_heat with tmode=0 - removing t_heat for safety'') \<in> set lg
          \<and> (\<forall>addr. resolve_thermostat_ip x site_id tid = Some addr \<and> addr \<noteq> [] \<longrightarrow>
                posts w' = posts w @ [(addr, [(''tmode'', dict_get params ''tmode''),
                                              (''hold'', dict_get params ''hold'')])]
              \<and> (\<exists>ok err extra. res = Inr (ok, err, extra)
                   \<and> (ok \<longleftrightarrow>
                        (case device_answers_post e (length (posts w)) addr
                                [(''tmode'', dict_get params ''tmode''),
                                 (''hold'', dict_get params ''hold'')] of
                           Resp status body \<Rightarrow> 200 \<le> status \<and> status < 300
                         | ConnError \<Rightarrow> False)
                        \<and> (case device_answers_get e addr of
                             Resp status body \<Rightarrow>
                               200 \<le> status \<and> status < 300 \<and> body \<noteq> []
                               \<and> py_eq (dict_get body ''tmode'') (PInt 0)
                               \<and> py_eq (dict_get body ''hold'') (dict_get params ''hold'')
                           | ConnError \<Rightarrow> False))
                   \<and> (ok \<longrightarrow> err = None)
                   \<and> (err = None \<or> err = Some PostFailed \<or> err = Some VerificationFailed
                        \<or> (\<exists>status. err = Some (DeviceHTTP status)))))
          \<and> (resolve_thermostat_ip x site_id tid = None
               \<or> resolve_thermostat_ip x site_id tid = Some [] \<longrightarrow>
                posts w' = posts w \<and> res = Inr (False, Some IPNotFound,
                                                 Some [(tid, False, Some IPNotFound)])))"
proof -
  let ?tmode = "dict_get params ''tmode''" and ?hold = "dict_get params ''hold''"
  have tm: "py_in ?tmode [PInt 0, PInt 1]"
    using off by (simp add: py_in_01)
  have run: "execute_set_state x e site_id tid params timeout_seconds w =
      (case do_one x e site_id ?tmode ?hold PNone tid w of
         (Inl exn, w) \<Rightarrow> (Inl exn,
             [(Warning, ''Command contained t_heat with tmode=0 - removing t_heat for safety'')], w)
       | (Inr (tid, ok, err), w) \<Rightarrow>
           (Inr (ok, (if ok then None else err), Some [(tid, ok, err)]),
            [(Warning, ''Command contained t_heat with tmode=0 - removing t_heat for safety'')], w))"
    using tm hold off heat py_eq_0_not_1 [OF off]
    by (auto simp add: execute_set_state_unfold key_in_delete Let_def
             split: prod.splits sum.splits)
  show ?thesis
  proof (cases "resolve_thermostat_ip x site_id tid = None
               \<or> resolve_thermostat_ip x site_id tid = Some []")
    case True
    show ?thesis
      using True by (auto simp add: run do_one_not_found [OF True])
  next
    case False
    then obtain addr where a: "resolve_thermostat_ip x site_id tid = Some addr" "addr \<noteq> []"
      by auto
    show ?thesis
      using a by (auto simp add: run do_one_off [OF off a] verify_set_state_off [OF off] Let_def
                    posts_update_device_config split: http_resp.splits)
  qed
qed

theorem set_state_off_strips_t_heat_witness:
  "(case execute_set_state
           \<lparr>resolve_thermostat_ip = (\<lambda>s t. if t = ''5cdad4'' then Some ''10.0.60.5'' else None),
            float_of_str = (\<lambda>s. None)\<rparr>
           \<lparr>today = \<lparr>year = 2025, month = 7, day = 4\<rparr>, now = 1000, weekday = 4, hour = 12,
            minute = 30, device_answers_post = (\<lambda>n a p. Resp 200 []),
            device_answers_get = (\<lambda>a. Resp 200 [(''tmode'', PInt 0), (''hold'', PInt 1)]),
            device_config_write_fails = False, thermostats_read_fails = False,
            thermostats_write_fails = False, public_sync_present = True,
            public_server_enabled = True, register_ok = (\<lambda>rs. True)\<rparr>
           ''site'' ''5cdad4''
           [(''tmode'', PInt 0), (''t_heat'', PInt 70), (''hold'', PInt 1)] 300
           \<lparr>posts = [], device_config = [], thermostats = [], registrations = []\<rparr>
    of (res, lg, w') \<Rightarrow>
         (Warning, ''Command contained t_heat with tmode=0 - removing t_heat for safety'') \<in> set lg
       \<and> posts w' = [(''10.0.60.5'', [(''tmode'', PInt 0), (''hold'', PInt 1)])]
       \<and> (\<exists>extra. res = Inr (True, None, extra)))"
proof -
  let ?params = "[(''tmode'', PInt 0), (''t_heat'', PInt 70), (''hold'', PInt 1)]"
  have off: "py_eq (dict_get ?params ''tmode'') (PInt 0)"
    by (simp add: dict_get_Cons py_eq_int_int)
  have hold: "py_in (dict_get ?params ''hold'') [PInt 0, PInt 1]"
    by (simp add: dict_get_Cons py_in_01 py_eq_int_int)
  have heat: "key_in ''t_heat'' ?params"
    by (simp add: key_in_Cons)
  from set_state_off_strips_t_heat [OF off hold heat,
      where x = "\<lparr>resolve_thermostat_ip = (\<lambda>s t. if t = ''5cdad4'' then Some ''10.0.60.5'' else None),
            float_of_str = (\<lambda>s. None)\<rparr>"
      and e = "\<lparr>today = \<lparr>year = 2025, month = 7, day = 4\<rparr>, now = 1000, weekday = 4, hour = 12,
            minute = 30, device_answers_post = (\<lambda>n a p. Resp 200 []),
            device_answers_get = (\<lambda>a. Resp 200 [(''tmode'', PInt 0), (''hold'', PInt 1)]),
            device_config_write_fails = False, thermostats_read_fails = False,
            thermostats_write_fails = False, public_sync_present = True,
            public_server_enabled = True, register_ok = (\<lambda>rs. True)\<rparr>"
      and site_id = "''site''" and tid = "''5cdad4''" and timeout_seconds = 300
      and w = "\<lparr>posts = [], device_config = [], thermostats = [], registrations = []\<rparr>"]
  show ?thesis
    by (auto simp add: dict_get_Cons py_eq_int_int split: prod.splits)
qed

section \<open>Auxiliary facts about floats\<close>

text \<open>The floor of a rational literal, for the evaluation of \<open>to_double\<close> at concrete
  numbers.\<close>

lemma floor_rat_numeral: "\<lfloor>numeral a / numeral b :: rat\<rfloor> = numeral a div numeral b"
  using floor_divide_of_int_eq [of "numeral a" "numeral b", where ?'a = rat] by simp

lemma floor_rat_neg_numeral: "\<lfloor>- (numeral a / numeral b) :: rat\<rfloor> = - numeral a div numeral b"
  using floor_divide_of_int_eq [of "- numeral a" "numeral b", where ?'a = rat] by simp

lemma floor_rat_one_numeral: "\<lfloor>1 / numeral b :: rat\<rfloor> = 1 div numeral b"
  using floor_divide_of_int_eq [of 1 "numeral b", where ?'a = rat] by simp

lemma floor_rat_neg_one_numeral: "\<lfloor>- (1 / numeral b) :: rat\<rfloor> = - 1 div numeral b"
  using floor_divide_of_int_eq [of "- 1" "numeral b", where ?'a = rat] by simp

text \<open>The equations that evaluate the float operations at concrete numbers.\<close>

lemmas float_eval =
  to_double_def ilog2_def round_half_even_def bit_length.simps Let_def pow2_def
  float_ge_def float_eq_def float_ne_def
  floor_rat_numeral floor_rat_neg_numeral floor_rat_one_numeral floor_rat_neg_one_numeral

text \<open>The floats of the literals \<open>0.1\<close> and \<open>0.6\<close>, the difference \<open>0.6 - 0.1\<close>, which
  is \<open>0.5\<close>, and \<open>float(2**53 + 1)\<close>, which is \<open>2**53\<close>.\<close>

lemma to_double_tenth: "to_double (1 / 10) = Fin (3602879701896397 / 2 ^ 55)"
  by (simp add: float_eval)

lemma to_double_six_tenths: "to_double (3 / 5) = Fin (5404319552844595 / 2 ^ 53)"
  by (simp add: float_eval)

lemma float_sub_six_tenths_tenth:
  "float_sub (Fin (5404319552844595 / 2 ^ 53)) (Fin (3602879701896397 / 2 ^ 55)) = Fin (1 / 2)"
  by (simp add: float_eval)

lemma py_float_rounds: "py_float x (PInt (2 ^ 53 + 1)) = Inr (2 ^ 53)"
  by (simp add: float_eval)

lemma pow2_powi: "pow2 q = 2 powi q"
  by (simp add: pow2_def power_int_def power_one_over [symmetric] inverse_eq_divide)

lemma pow2_pos: "0 < pow2 q"
  by (simp add: pow2_powi)

lemma pow2_mono: "q \<le> q' \<Longrightarrow> pow2 q \<le> pow2 q'"
  by (simp add: pow2_powi power_int_increasing)

lemma pow2_strict_mono: "q < q' \<Longrightarrow> pow2 q < pow2 q'"
  by (simp add: pow2_powi power_int_strict_increasing)

lemma pow2_add: "pow2 (a + b) = pow2 a * pow2 b"
  by (simp add: pow2_powi power_int_add)

lemma bit_length_bounds: "0 < n \<Longrightarrow> 2 ^ (bit_length n - 1) \<le> n \<and> n < 2 ^ bit_length n"
proof (induction n rule: bit_length.induct)
  case (1 n)
  show ?case
  proof (cases "n div 2 = 0")
    case True
    then have "n = 1" using 1(2) by linarith
    then show ?thesis by (simp add: bit_length.simps)
  next
    case False
    then have h: "0 < n div 2" by simp
    have n0: "n \<noteq> 0" using 1(2) by simp
    from 1(1) [OF n0 h] have ih: "2 ^ (bit_length (n div 2) - 1) \<le> n div 2"
      "n div 2 < 2 ^ bit_length (n div 2)" by simp_all
    have pos: "0 < bit_length (n div 2)"
      using h by (subst bit_length.simps) simp
    have bl: "bit_length n = Suc (bit_length (n div 2))"
      using n0 by (subst bit_length.simps) simp
    have "2 ^ (bit_length n - 1) = (2::nat) ^ bit_length (n div 2)"
      by (simp add: bl)
    also have "\<dots> = 2 * 2 ^ (bit_length (n div 2) - 1)"
      using pos by (cases "bit_length (n div 2)") simp_all
    also have "\<dots> \<le> 2 * (n div 2)" using ih(1) by simp
    also have "\<dots> \<le> n" by simp
    finally have lo: "2 ^ (bit_length n - 1) \<le> n" .
    have "n < 2 * (n div 2) + 2" by linarith
    also have "\<dots> \<le> 2 * 2 ^ bit_length (n div 2)" using ih(2) by simp
    also have "\<dots> = 2 ^ bit_length n" by (simp add: bl)
    finally show ?thesis using lo by simp
  qed
qed

text \<open>Rounding to the nearest integer moves by at most one half, is monotone at the
  integers and takes a value within one half of an even integer to that integer.\<close>

lemma round_half_even_floor:
  "round_half_even m = \<lfloor>m\<rfloor> \<or> round_half_even m = \<lfloor>m\<rfloor> + 1 \<and> 1 / 2 \<le> m - of_int \<lfloor>m\<rfloor>"
  by (auto simp add: round_half_even_def Let_def)

lemma round_half_even_error: "\<bar>of_int (round_half_even m) - m\<bar> \<le> 1 / 2"
proof -
  have "of_int \<lfloor>m\<rfloor> \<le> m" "m < of_int \<lfloor>m\<rfloor> + 1" by linarith+
  then show ?thesis
    by (auto simp add: round_half_even_def Let_def abs_le_iff)
qed

lemma round_half_even_ge: "of_int K \<le> m \<Longrightarrow> K \<le> round_half_even m"
proof -
  assume "of_int K \<le> m"
  then have "K \<le> \<lfloor>m\<rfloor>" by (simp add: le_floor_iff)
  then show ?thesis using round_half_even_floor [of m] by linarith
qed

lemma round_half_even_le: "m \<le> of_int K \<Longrightarrow> round_half_even m \<le> K"
proof -
  assume a: "m \<le> of_int K"
  have f: "of_int \<lfloor>m\<rfloor> \<le> m" by linarith
  show ?thesis
  proof (cases "round_half_even m = \<lfloor>m\<rfloor>")
    case True
    have "\<lfloor>m\<rfloor> \<le> K" using a by (simp add: floor_le_iff) 
    then show ?thesis using True by simp
  next
    case False
    then have r: "round_half_even m = \<lfloor>m\<rfloor> + 1" "1 / 2 \<le> m - of_int \<lfloor>m\<rfloor>"
      using round_half_even_floor [of m] by auto
    have "of_int \<lfloor>m\<rfloor> < (of_int K :: rat)" using r(2) a by linarith
    then have "\<lfloor>m\<rfloor> < K" by simp
    then show ?thesis using r(1) by simp
  qed
qed

lemma round_half_even_near:
  assumes "even K" and "\<bar>m - of_int K\<bar> \<le> 1 / 2"
  shows "round_half_even m = K"
proof (cases "of_int K \<le> m")
  case True
  have "\<lfloor>m\<rfloor> = K"
    using True assms(2) by (intro floor_unique) linarith+
  then show ?thesis
    using assms True by (auto simp add: round_half_even_def Let_def)
next
  case False
  have "rat_of_int K - 1 \<le> m" "m < rat_of_int K"
    using False assms(2) by linarith+
  then have f: "\<lfloor>m\<rfloor> = K - 1"
    by (intro floor_unique) simp_all
  have "odd (K - 1)" using assms(1) by simp
  then show ?thesis
    using assms False f by (auto simp add: round_half_even_def Let_def)
qed

lemma pow2_of_nat: "pow2 (int n) = 2 ^ n"
  by (simp add: pow2_def)

lemma pow2_neg_of_nat: "pow2 (- int n) = 1 / 2 ^ n"
  by (auto simp add: pow2_def)

text \<open>\<open>ilog2\<close> is the binary exponent.\<close>

lemma ilog2_bounds:
  assumes "r \<noteq> 0"
  shows "pow2 (ilog2 r) \<le> \<bar>r\<bar> \<and> \<bar>r\<bar> < pow2 (ilog2 r + 1)"
proof -
  define a where "a = \<bar>r\<bar>"
  have a0: "0 < a" using assms by (simp add: a_def)
  show ?thesis
  proof (cases "1 \<le> a")
    case True
    define n where "n = nat \<lfloor>a\<rfloor>"
    have f1: "1 \<le> \<lfloor>a\<rfloor>" using True by (simp add: le_floor_iff)
    then have n0: "0 < n" by (simp add: n_def)
    have fn: "\<lfloor>a\<rfloor> = int n" using f1 by (simp add: n_def)
    define K where "K = bit_length n - 1"
    have "bit_length n = Suc (bit_length (n div 2))"
      using n0 by (subst bit_length.simps) simp
    then have bl: "bit_length n = Suc K"
      by (simp add: K_def)
    from bit_length_bounds [OF n0] have b: "2 ^ K \<le> n" "n < 2 ^ Suc K"
      by (simp_all add: K_def [symmetric] bl)
    have il: "ilog2 r = int K"
      using True by (simp add: ilog2_def Let_def a_def [symmetric] n_def [symmetric] bl)
    have "(2::rat) ^ K = of_nat (2 ^ K)" by simp
    also have "\<dots> \<le> of_nat n" using b(1) by (simp only: of_nat_le_iff)
    also have "\<dots> = of_int \<lfloor>a\<rfloor>" by (simp add: fn)
    also have "\<dots> \<le> a" by linarith
    finally have lo: "2 ^ K \<le> a" .
    have "Suc n \<le> 2 ^ Suc K" using b(2) by simp
    then have "(of_nat (Suc n) :: rat) \<le> of_nat (2 ^ Suc K)" by (simp only: of_nat_le_iff)
    then have "of_int \<lfloor>a\<rfloor> + 1 \<le> (2::rat) ^ Suc K" by (simp add: fn)
    moreover have "a < of_int \<lfloor>a\<rfloor> + 1" by linarith
    ultimately have hi: "a < 2 ^ Suc K" by linarith
    have "pow2 (int K + 1) = 2 ^ Suc K"
      using pow2_of_nat [of "Suc K"] by (simp add: add.commute)
    then show ?thesis
      using lo hi by (simp add: il a_def [symmetric] pow2_of_nat)
  next
    case False
    define y where "y = 1 / a"
    have y1: "1 < y" using False a0 by (simp add: y_def)
    have ay: "a = 1 / y" by (simp add: y_def)
    define n where "n = nat \<lfloor>y\<rfloor>"
    have f1: "1 \<le> \<lfloor>y\<rfloor>" using y1 by (simp add: le_floor_iff)
    then have n0: "0 < n" by (simp add: n_def)
    have fn: "\<lfloor>y\<rfloor> = int n" using f1 by (simp add: n_def)
    define K where "K = bit_length n - 1"
    have "bit_length n = Suc (bit_length (n div 2))"
      using n0 by (subst bit_length.simps) simp
    then have bl: "bit_length n = Suc K"
      by (simp add: K_def)
    from bit_length_bounds [OF n0] have b: "2 ^ K \<le> n" "n < 2 ^ Suc K"
      by (simp_all add: K_def [symmetric] bl)
    have "(2::rat) ^ K = of_nat (2 ^ K)" by simp
    also have "\<dots> \<le> of_nat n" using b(1) by (simp only: of_nat_le_iff)
    also have "\<dots> = of_int \<lfloor>y\<rfloor>" by (simp add: fn)
    also have "\<dots> \<le> y" by linarith
    finally have lo: "2 ^ K \<le> y" .
    have "Suc n \<le> 2 ^ Suc K" using b(2) by simp
    then have "(of_nat (Suc n) :: rat) \<le> of_nat (2 ^ Suc K)" by (simp only: of_nat_le_iff)
    then have "of_int \<lfloor>y\<rfloor> + 1 \<le> (2::rat) ^ Suc K" by (simp add: fn)
    moreover have "y < of_int \<lfloor>y\<rfloor> + 1" by linarith
    ultimately have hi: "y < 2 ^ Suc K" by linarith
    have alo: "1 / 2 ^ Suc K < a"
      using hi y1 unfolding ay by (intro divide_strict_left_mono) simp_all
    have ahi: "a \<le> 1 / 2 ^ K"
      using lo y1 unfolding ay by (intro divide_left_mono) simp_all
    have il: "ilog2 r = (if a * 2 ^ K = 1 then - int K else - int K - 1)"
      using False by (simp add: ilog2_def Let_def a_def [symmetric] y_def [symmetric]
                                n_def [symmetric] bl)
    have "- int K - 1 = - int (Suc K)" by simp
    then have p1: "pow2 (- int K - 1) = 1 / 2 ^ Suc K"
      by (simp only: pow2_neg_of_nat)
    have "pow2 (1 + - int K) = pow2 1 * pow2 (- int K)"
      by (rule pow2_add)
    then have p2: "pow2 (1 - int K) = 2 / 2 ^ K"
      by (simp add: pow2_neg_of_nat) (simp add: pow2_def)
    show ?thesis
    proof (cases "a * 2 ^ K = 1")
      case True
      then have "a = 1 / 2 ^ K" by (simp add: field_simps)
      moreover have "1 / 2 ^ K < (2::rat) / 2 ^ K"
        by (simp add: divide_strict_right_mono)
      ultimately show ?thesis
        using True by (simp add: il a_def [symmetric] pow2_neg_of_nat p2)
    next
      case F: False
      then have "a \<noteq> 1 / 2 ^ K" by (simp add: field_simps)
      then have "a < 1 / 2 ^ K" using ahi by simp
      then show ?thesis
        using F alo by (simp add: il a_def [symmetric] pow2_neg_of_nat p1)
    qed
  qed
qed

text \<open>The comparison of \<open>_detect_state_change\<close> on the rounded difference, in terms of
  the exact one: a rounded \<open>\<bar>x\<bar>\<close> reaches \<open>0.5\<close> exactly from \<open>0.5 - 2^-55\<close> on, the
  midpoint between \<open>0.5\<close> and the float below it.\<close>

lemma to_double_half:
  "float_ge (float_abs (to_double x)) (Fin (1 / 2)) \<longleftrightarrow> 1 / 2 - 1 / 2 ^ 55 \<le> \<bar>x\<bar>"
proof (cases "x = 0")
  case True
  then show ?thesis
    by (simp add: to_double_def float_ge_def float_eq_def)
next
  case False
  define e where "e = ilog2 x"
  define q where "q = max (e - 52) (- 1074)"
  define P where "P = pow2 q"
  define m where "m = x / P"
  define n where "n = round_half_even m"
  define v where "v = of_int n * P"
  have P0: "0 < P" by (simp add: P_def pow2_pos)
  from ilog2_bounds [OF False] have eb: "pow2 e \<le> \<bar>x\<bar>" "\<bar>x\<bar> < pow2 (e + 1)"
    by (simp_all add: e_def)
  have half: "pow2 (- 1) = 1 / 2" by (simp add: pow2_def)
  have td: "to_double x =
      (if 2 ^ 1024 \<le> v then PosInf else if v \<le> - (2 ^ 1024) then NegInf else Fin v)"
    using False by (simp add: to_double_def Let_def e_def q_def P_def m_def n_def v_def)
  have big: "(1::rat) / 2 \<le> 2 ^ 1024" by simp
  have key: "float_ge (float_abs (to_double x)) (Fin (1 / 2)) \<longleftrightarrow> 1 / 2 \<le> \<bar>v\<bar>"
  proof (cases "2 ^ 1024 \<le> v")
    case True
    then have "1 / 2 \<le> \<bar>v\<bar>" using big by linarith
    then show ?thesis using True by (simp add: td float_ge_def)
  next
    case nb: False
    show ?thesis
    proof (cases "v \<le> - (2 ^ 1024)")
      case True
      then have "1 / 2 \<le> \<bar>v\<bar>" using big by linarith
      then show ?thesis using True nb by (simp add: td float_ge_def)
    next
      case False
      then show ?thesis using nb by (auto simp add: td float_ge_def float_eq_def)
    qed
  qed
  have xm: "x = m * P" using P0 by (simp add: m_def)
  have "v - x = (of_int n - m) * P" by (simp add: v_def xm algebra_simps)
  then have "\<bar>v - x\<bar> = \<bar>of_int n - m\<bar> * P" using P0 by (simp add: abs_mult)
  also have "\<dots> \<le> 1 / 2 * P"
    using round_half_even_error [of m] P0 unfolding n_def by (intro mult_right_mono) simp_all
  finally have err: "\<bar>v - x\<bar> \<le> P / 2" by simp
  consider (lo) "\<bar>x\<bar> < 1 / 2 - 1 / 2 ^ 55"
    | (mid) "1 / 2 - 1 / 2 ^ 55 \<le> \<bar>x\<bar>" "\<bar>x\<bar> < 1 / 2"
    | (hi) "1 / 2 \<le> \<bar>x\<bar>"
    by linarith
  then have "1 / 2 \<le> \<bar>v\<bar> \<longleftrightarrow> 1 / 2 - 1 / 2 ^ 55 \<le> \<bar>x\<bar>"
  proof cases
    case lo
    have e2: "e \<le> - 2"
    proof (rule ccontr)
      assume "\<not> e \<le> - 2"
      then have "pow2 (- 1) \<le> pow2 e" by (intro pow2_mono) simp
      then show False using eb(1) lo by (simp add: half)
    qed
    then have "q \<le> - 54" by (simp add: q_def)
    then have "P \<le> pow2 (- 54)" unfolding P_def by (rule pow2_mono)
    then have "P \<le> 1 / 2 ^ 54" by (simp add: pow2_def)
    then have Pn: "P \<le> 1 / 18014398509481984" by simp
    define a where "a = \<bar>v\<bar>"
    define b where "b = \<bar>x\<bar>"
    define c where "c = \<bar>v - x\<bar>"
    have "a \<le> b + c" unfolding a_def b_def c_def by linarith
    moreover have "c \<le> P / 2" using err by (simp add: c_def)
    moreover have "b < 18014398509481983 / 36028797018963968" using lo by (simp add: b_def)
    ultimately have "a < 1 / 2" using Pn by linarith
    then have "\<bar>v\<bar> < 1 / 2" by (simp add: a_def)
    then show ?thesis using lo by simp
  next
    case mid
    have e2: "e \<le> - 2"
    proof (rule ccontr)
      assume "\<not> e \<le> - 2"
      then have "pow2 (- 1) \<le> pow2 e" by (intro pow2_mono) simp
      then show False using eb(1) mid(2) by (simp add: half)
    qed
    have e3: "- 2 \<le> e"
    proof (rule ccontr)
      assume "\<not> - 2 \<le> e"
      then have "pow2 (e + 1) \<le> pow2 (- 2)" by (intro pow2_mono) simp
      then show False using eb(2) mid(1) by (simp add: pow2_def)
    qed
    have "q = - 54" using e2 e3 by (simp add: q_def)
    then have P: "P = 1 / 2 ^ 54" by (simp add: P_def pow2_def)
    have mx: "m = x * 2 ^ 54" by (simp add: m_def P)
    have "\<bar>v\<bar> = 1 / 2"
    proof (cases "0 < x")
      case True
      have "\<bar>m - of_int (2 ^ 53)\<bar> \<le> 1 / 2" using mid True by (simp add: mx)
      then have "n = 2 ^ 53" unfolding n_def by (intro round_half_even_near) simp_all
      then show ?thesis by (simp add: v_def P)
    next
      case False
      have "\<bar>m - of_int (- (2 ^ 53))\<bar> \<le> 1 / 2" using mid False by (simp add: mx)
      then have "n = - (2 ^ 53)" unfolding n_def by (intro round_half_even_near) simp_all
      then show ?thesis by (simp add: v_def P)
    qed
    then show ?thesis using mid by simp
  next
    case hi
    have e1: "- 1 \<le> e"
    proof (rule ccontr)
      assume "\<not> - 1 \<le> e"
      then have "pow2 (e + 1) \<le> pow2 (- 1)" by (intro pow2_mono) simp
      then show False using eb(2) hi by (simp add: half)
    qed
    then have "q = e - 52" by (simp add: q_def)
    then have "pow2 e = pow2 52 * P" using pow2_add [of 52 q] by (simp add: P_def)
    then have pe: "pow2 e = 2 ^ 52 * P" by (simp add: pow2_def)
    have ph: "1 / 2 \<le> pow2 e" using pow2_mono [OF e1] by (simp add: half)
    have "1 / 2 \<le> \<bar>v\<bar>"
    proof (cases "0 < x")
      case True
      then have "2 ^ 52 * P \<le> m * P" using eb(1) by (simp add: pe xm [symmetric])
      then have "of_int (2 ^ 52) \<le> m" using P0 by simp
      then have "2 ^ 52 \<le> n" unfolding n_def by (rule round_half_even_ge)
      then have "(2 ^ 52 :: rat) \<le> of_int n" by (metis of_int_le_iff of_int_numeral of_int_power)
      then have "2 ^ 52 * P \<le> v" unfolding v_def using P0 by (intro mult_right_mono) simp_all
      then show ?thesis using ph pe by linarith
    next
      case False
      then have "m * P \<le> (- (2 ^ 52)) * P" using eb(1) by (simp add: pe xm [symmetric])
      then have "m \<le> - (2 ^ 52)" using P0 by (simp only: mult_le_cancel_right)
      then have "m \<le> of_int (- (2 ^ 52))" by simp
      then have "n \<le> - (2 ^ 52)" unfolding n_def by (rule round_half_even_le)
      then have "of_int n \<le> (- (2 ^ 52) :: rat)"
        by (metis of_int_le_iff of_int_numeral of_int_power of_int_minus)
      then have "v \<le> - (2 ^ 52) * P" unfolding v_def using P0 by (intro mult_right_mono) simp_all
      then show ?thesis using ph pe by linarith
    qed
    then show ?thesis using hi by simp
  qed
  then show ?thesis using key by simp
qed

section \<open>State-change detection\<close>

text \<open>
  Claim C7, amended.  The first reading of a device (nothing cached) is never a change.
  With a cached reading, the temperature counts as changed when the difference of the two
  floats, rounded to the nearest float as Python computes it, is at least \<open>0.5\<close> in
  absolute value, and the setpoint counts as changed when the two floats compare unequal
  (\<open>!=\<close>, which also holds when one of them is NaN).  A reading whose temperature and
  setpoint have not changed in this sense and whose mode, HVAC state, hold and override
  are the same is no change.  A reading that differs from the cached one in exactly one
  monitored field is a change whose diff lists exactly that field, with the old and the new
  value.  For two finite temperatures the rounded difference reaches \<open>0.5\<close> exactly
  when the exact difference is at least \<open>0.5 - 2^-55\<close>; two finite setpoints compare
  unequal exactly when their values differ.
\<close>

theorem detect_state_change_spec:
  "(map_of last_states tid = None \<longrightarrow>
      detect_state_change last_states tid cur = (False, ''first_reading'', None))
 \<and> (map_of last_states tid = Some prev
      \<and> \<not> float_ge (float_abs (float_sub (s_temp cur) (s_temp prev))) (Fin (1 / 2))
      \<and> \<not> float_ne (s_t_heat cur) (s_t_heat prev)
      \<and> s_tmode cur = s_tmode prev \<and> s_tstate cur = s_tstate prev
      \<and> s_hold cur = s_hold prev \<and> s_override cur = s_override prev \<longrightarrow>
      detect_state_change last_states tid cur = (False, ''no_change'', None))
 \<and> (map_of last_states tid = Some prev
      \<and> float_ge (float_abs (float_sub (s_temp cur) (s_temp prev))) (Fin (1 / 2))
      \<and> \<not> float_ne (s_t_heat cur) (s_t_heat prev)
      \<and> s_tmode cur = s_tmode prev \<and> s_tstate cur = s_tstate prev
      \<and> s_hold cur = s_hold prev \<and> s_override cur = s_override prev \<longrightarrow>
      detect_state_change last_states tid cur
        = (True, ''temperature_change'',
           Some [(''temp'', FloatVal (s_temp prev), FloatVal (s_temp cur))]))
 \<and> (map_of last_states tid = Some prev
      \<and> \<not> float_ge (float_abs (float_sub (s_temp cur) (s_temp prev))) (Fin (1 / 2))
      \<and> float_ne (s_t_heat cur) (s_t_heat prev)
      \<and> s_tmode cur = s_tmode prev \<and> s_tstate cur = s_tstate prev
      \<and> s_hold cur = s_hold prev \<and> s_override cur = s_override prev \<longrightarrow>
      detect_state_change last_states tid cur
        = (True, ''manual_adjustment'',
           Some [(''t_heat'', FloatVal (s_t_heat prev), FloatVal (s_t_heat cur))]))
 \<and> (map_of last_states tid = Some prev
      \<and> \<not> float_ge (float_abs (float_sub (s_temp cur) (s_temp prev))) (Fin (1 / 2))
      \<and> \<not> float_ne (s_t_heat cur) (s_t_heat prev)
      \<and> s_tmode cur \<noteq> s_tmode prev \<and> s_tstate cur = s_tstate prev
      \<and> s_hold cur = s_hold prev \<and> s_override cur = s_override prev \<longrightarrow>
      detect_state_change last_states tid cur
        = (True, ''manual_adjustment'', Some [(''tmode'', IntVal (s_tmode prev), IntVal (s_tmode cur))]))
 \<and> (map_of last_states tid = Some prev
      \<and> \<not> float_ge (float_abs (float_sub (s_temp cur) (s_temp prev))) (Fin (1 / 2))
      \<and> \<not> float_ne (s_t_heat cur) (s_t_heat prev)
      \<and> s_tmode cur = s_tmode prev \<and> s_tstate cur \<noteq> s_tstate prev
      \<and> s_hold cur = s_hold prev \<and> s_override cur = s_override prev \<longrightarrow>
      detect_state_change last_states tid cur
        = (True, ''hvac_state_change'',
           Some [(''tstate'', IntVal (s_tstate prev), IntVal (s_tstate cur))]))
 \<and> (map_of last_states tid = Some prev
      \<and> \<not> float_ge (float_abs (float_sub (s_temp cur) (s_temp prev))) (Fin (1 / 2))
      \<and> \<not> float_ne (s_t_heat cur) (s_t_heat prev)
      \<and> s_tmode cur = s_tmode prev \<and> s_tstate cur = s_tstate prev
      \<and> s_hold cur \<noteq> s_hold prev \<and> s_override cur = s_override prev \<longrightarrow>
      detect_state_change last_states tid cur
        = (True, ''manual_adjustment'', Some [(''hold'', IntVal (s_hold prev), IntVal (s_hold cur))]))
 \<and> (map_of last_states tid = Some prev
      \<and> \<not> float_ge (float_abs (float_sub (s_temp cur) (s_temp prev))) (Fin (1 / 2))
      \<and> \<not> float_ne (s_t_heat cur) (s_t_heat prev)
      \<and> s_tmode cur = s_tmode prev \<and> s_tstate cur = s_tstate prev
      \<and> s_hold cur = s_hold prev \<and> s_override cur \<noteq> s_override prev \<longrightarrow>
      detect_state_change last_states tid cur
        = (True, ''override_change'',
           Some [(''override'', IntVal (s_override prev), IntVal (s_override cur))]))
 \<and> (s_temp cur = Fin a \<and> s_temp prev = Fin b \<longrightarrow>
      float_ge (float_abs (float_sub (s_temp cur) (s_temp prev))) (Fin (1 / 2))
        = (1 / 2 - 1 / 2 ^ 55 \<le> \<bar>a - b\<bar>))
 \<and> (s_t_heat cur = Fin c \<and> s_t_heat prev = Fin d \<longrightarrow>
      float_ne (s_t_heat cur) (s_t_heat prev) = (c \<noteq> d))"
proof -
  have "float_ge (float_abs (float_sub (Fin a) (Fin b))) (Fin (1 / 2))
        = (1 / 2 - 1 / 2 ^ 55 \<le> \<bar>a - b\<bar>)"
    using to_double_half [of "a - b"] by simp
  then show ?thesis
    by (simp add: detect_state_change_def classify_change_type_def Let_def
                  float_ne_def float_eq_def)
qed

text \<open>A first reading; a step from 68 to 68.5 degrees; one from 68 to 68.25 degrees; and
  a setpoint moved from 66 to 70 degrees.\<close>

theorem detect_state_change_spec_witness:
  "detect_state_change [] ''5cdad4''
     \<lparr>s_thermostat_id = ''5cdad4'', s_ts = 0, s_temp = Fin 68, s_t_heat = Fin 66, s_tmode = 1,
      s_tstate = 0, s_hold = 1, s_override = 0, s_ip_address = ''10.0.60.5'',
      s_local_temp = None, s_last_error = None\<rparr>
     = (False, ''first_reading'', None)
   \<and> detect_state_change
       [(''5cdad4'',
         \<lparr>s_thermostat_id = ''5cdad4'', s_ts = 0, s_temp = Fin 68, s_t_heat = Fin 66, s_tmode = 1,
          s_tstate = 0, s_hold = 1, s_override = 0, s_ip_address = ''10.0.60.5'',
          s_local_temp = None, s_last_error = None\<rparr>)]
       ''5cdad4''
       \<lparr>s_thermostat_id = ''5cdad4'', s_ts = 5, s_temp = Fin (137 / 2), s_t_heat = Fin 66,
        s_tmode = 1, s_tstate = 0, s_hold = 1, s_override = 0, s_ip_address = ''10.0.60.5'',
        s_local_temp = None, s_last_error = None\<rparr>
     = (True, ''temperature_change'', Some [(''temp'', FloatVal (Fin 68), FloatVal (Fin (137 / 2)))])
   \<and> detect_state_change
       [(''5cdad4'',
         \<lparr>s_thermostat_id = ''5cdad4'', s_ts = 0, s_temp = Fin 68, s_t_heat = Fin 66, s_tmode = 1,
          s_tstate = 0, s_hold = 1, s_override = 0, s_ip_address = ''10.0.60.5'',
          s_local_temp = None, s_last_error = None\<rparr>)]
       ''5cdad4''
       \<lparr>s_thermostat_id = ''5cdad4'', s_ts = 5, s_temp = Fin (273 / 4), s_t_heat = Fin 66,
        s_tmode = 1, s_tstate = 0, s_hold = 1, s_override = 0, s_ip_address = ''10.0.60.5'',
        s_local_temp = None, s_last_error = None\<rparr>
     = (False, ''no_change'', None)
   \<and> detect_state_change
       [(''5cdad4'',
         \<lparr>s_thermostat_id = ''5cdad4'', s_ts = 0, s_temp = Fin 68, s_t_heat = Fin 66, s_tmode = 1,
          s_tstate = 0, s_hold = 1, s_override = 0, s_ip_address = ''10.0.60.5'',
          s_local_temp = None, s_last_error = None\<rparr>)]
       ''5cdad4''
       \<lparr>s_thermostat_id = ''5cdad4'', s_ts = 5, s_temp = Fin (273 / 4), s_t_heat = Fin 70,
        s_tmode = 1, s_tstate = 0, s_hold = 1, s_override = 0, s_ip_address = ''10.0.60.5'',
        s_local_temp = None, s_last_error = None\<rparr>
     = (True, ''manual_adjustment'', Some [(''t_heat'', FloatVal (Fin 66), FloatVal (Fin 70))])"
proof -
  let ?prev = "\<lparr>s_thermostat_id = ''5cdad4'', s_ts = 0, s_temp = Fin 68, s_t_heat = Fin 66, s_tmode = 1,
          s_tstate = 0, s_hold = 1, s_override = 0, s_ip_address = ''10.0.60.5'',
          s_local_temp = None, s_last_error = None\<rparr>"
  let ?warm = "\<lparr>s_thermostat_id = ''5cdad4'', s_ts = 5, s_temp = Fin (137 / 2), s_t_heat = Fin 66,
        s_tmode = 1, s_tstate = 0, s_hold = 1, s_override = 0, s_ip_address = ''10.0.60.5'',
        s_local_temp = None, s_last_error = None\<rparr>"
  let ?same = "\<lparr>s_thermostat_id = ''5cdad4'', s_ts = 5, s_temp = Fin (273 / 4), s_t_heat = Fin 66,
        s_tmode = 1, s_tstate = 0, s_hold = 1, s_override = 0, s_ip_address = ''10.0.60.5'',
        s_local_temp = None, s_last_error = None\<rparr>"
  let ?set = "\<lparr>s_thermostat_id = ''5cdad4'', s_ts = 5, s_temp = Fin (273 / 4), s_t_heat = Fin 70,
        s_tmode = 1, s_tstate = 0, s_hold = 1, s_override = 0, s_ip_address = ''10.0.60.5'',
        s_local_temp = None, s_last_error = None\<rparr>"
  have d: "to_double (1 / 2) = Fin (1 / 2)" "to_double (1 / 4) = Fin (1 / 4)"
    by (simp_all add: float_eval)
  from detect_state_change_spec [where last_states = "[]" and tid = "''5cdad4''"
                                   and prev = ?prev and cur = ?prev]
       detect_state_change_spec [where last_states = "[(''5cdad4'', ?prev)]" and tid = "''5cdad4''"
                                   and prev = ?prev and cur = ?warm]
       detect_state_change_spec [where last_states = "[(''5cdad4'', ?prev)]" and tid = "''5cdad4''"
                                   and prev = ?prev and cur = ?same]
       detect_state_change_spec [where last_states = "[(''5cdad4'', ?prev)]" and tid = "''5cdad4''"
                                   and prev = ?prev and cur = ?set]
  show ?thesis
    by (simp add: d float_ge_def float_eq_def float_ne_def)
qed

text \<open>
  The claim as stated, with the exact difference of the temperatures, fails.  The floats
  of \<open>0.1\<close> and \<open>0.6\<close> differ by less than one half (by \<open>0.5 - 2^-55\<close>), every other
  field is the same, and the reading is reported as a temperature change, because the
  difference rounds to \<open>0.5\<close>.  And two readings with the same fields throughout, whose
  setpoint is NaN, are reported as a manual adjustment.
\<close>

theorem detect_state_change_rounded_delta:
  "to_double (1 / 10) = Fin (3602879701896397 / 2 ^ 55)
   \<and> to_double (3 / 5) = Fin (5404319552844595 / 2 ^ 53)
   \<and> \<bar>5404319552844595 / 2 ^ 53 - 3602879701896397 / 2 ^ 55 :: rat\<bar> < 1 / 2
   \<and> detect_state_change
       [(''5cdad4'',
         \<lparr>s_thermostat_id = ''5cdad4'', s_ts = 0, s_temp = Fin (3602879701896397 / 2 ^ 55),
          s_t_heat = Fin 66, s_tmode = 1, s_tstate = 0, s_hold = 1, s_override = 0,
          s_ip_address = ''10.0.60.5'', s_local_temp = None, s_last_error = None\<rparr>)]
       ''5cdad4''
       \<lparr>s_thermostat_id = ''5cdad4'', s_ts = 5, s_temp = Fin (5404319552844595 / 2 ^ 53),
        s_t_heat = Fin 66, s_tmode = 1, s_tstate = 0, s_hold = 1, s_override = 0,
        s_ip_address = ''10.0.60.5'', s_local_temp = None, s_last_error = None\<rparr>
     = (True, ''temperature_change'',
        Some [(''temp'', FloatVal (Fin (3602879701896397 / 2 ^ 55)),
                         FloatVal (Fin (5404319552844595 / 2 ^ 53)))])
   \<and> detect_state_change
       [(''5cdad4'',
         \<lparr>s_thermostat_id = ''5cdad4'', s_ts = 0, s_temp = Fin 68, s_t_heat = NaN, s_tmode = 1,
          s_tstate = 0, s_hold = 1, s_override = 0, s_ip_address = ''10.0.60.5'',
          s_local_temp = None, s_last_error = None\<rparr>)]
       ''5cdad4''
       \<lparr>s_thermostat_id = ''5cdad4'', s_ts = 5, s_temp = Fin 68, s_t_heat = NaN, s_tmode = 1,
        s_tstate = 0, s_hold = 1, s_override = 0, s_ip_address = ''10.0.60.5'',
        s_local_temp = None, s_last_error = None\<rparr>
     = (True, ''manual_adjustment'', Some [(''t_heat'', FloatVal NaN, FloatVal NaN)])"
proof -
  have a: "to_double (1 / 10) = Fin (3602879701896397 / 2 ^ 55)"
    by (simp add: float_eval)
  have b: "to_double (3 / 5) = Fin (5404319552844595 / 2 ^ 53)"
    by (simp add: float_eval)
  have c: "\<bar>5404319552844595 / 2 ^ 53 - 3602879701896397 / 2 ^ 55 :: rat\<bar> < 1 / 2"
    by simp
  have d: "to_double (5404319552844595 / 2 ^ 53 - 3602879701896397 / 2 ^ 55) = Fin (1 / 2)"
    by (simp add: float_eval)
  have e: "to_double 0 = Fin 0"
    by (simp add: to_double_def)
  show ?thesis
    using d e by (simp add: a b c detect_state_change_def classify_change_type_def Let_def
                  float_ge_def float_eq_def float_ne_def)
qed

section \<open>The progressive range scan\<close>

lemma map_filter_append: "List.map_filter f (xs @ ys) = List.map_filter f xs @ List.map_filter f ys"
  by (simp add: List.map_filter_def)

text \<open>Addresses scanned without reaching a checkpoint only extend the accumulators.\<close>

lemma scan_loop_quiet:
  "s mod 10 + length blk < 10 \<Longrightarrow> s + length blk < T \<Longrightarrow>
   scan_loop P cb T (blk @ rest)
     \<lparr>ips_scanned = s, all_devices_found = al, devices_since_checkpoint = pd,
      known_devices = kn, callback_calls = cs\<rparr>
   = scan_loop P cb T rest
     \<lparr>ips_scanned = s + length blk,
      all_devices_found = al @ List.map_filter (\<lambda>a. P a ''tcp_scan'') blk,
      devices_since_checkpoint = pd @ List.map_filter (\<lambda>a. P a ''tcp_scan'') blk,
      known_devices = fold (\<lambda>d. AList.update (uuid d) d)
                           (List.map_filter (\<lambda>a. P a ''tcp_scan'') blk) kn,
      callback_calls = cs\<rparr>"
proof (induction blk arbitrary: s al pd kn)
  case Nil
  then show ?case by simp
next
  case (Cons a blk)
  from Cons.prems have m: "Suc s mod 10 \<noteq> 0" "Suc s \<noteq> T"
    and p1: "Suc s mod 10 + length blk < 10" and p2: "Suc s + length blk < T"
    by (simp_all, presburger+)
  show ?case
  proof (cases "P a ''tcp_scan''")
    case None
    then show ?thesis
      using m Cons.IH [OF p1 p2, of al pd kn]
      by (simp add: Let_def)
  next
    case (Some d)
    then show ?thesis
      using m Cons.IH [OF p1 p2, of "al @ [d]" "pd @ [d]" "AList.update (uuid d) d kn"]
      by (simp add: Let_def)
  qed
qed

text \<open>An address that completes a block of ten, or is the last one, fires the checkpoint.\<close>

lemma scan_loop_checkpoint:
  "Suc s mod 10 = 0 \<or> Suc s = T \<Longrightarrow>
   scan_loop P cb T (a # rest)
     \<lparr>ips_scanned = s, all_devices_found = al, devices_since_checkpoint = pd,
      known_devices = kn, callback_calls = cs\<rparr>
   = scan_loop P cb T rest
     \<lparr>ips_scanned = Suc s,
      all_devices_found = al @ List.map_filter (\<lambda>a. P a ''tcp_scan'') [a],
      devices_since_checkpoint = [],
      known_devices = fold (\<lambda>d. AList.update (uuid d) d)
                           (List.map_filter (\<lambda>a. P a ''tcp_scan'') [a]) kn,
      callback_calls = (if cb then cs @ [(pd @ List.map_filter (\<lambda>a. P a ''tcp_scan'') [a], Suc s, T)]
                        else cs)\<rparr>"
  by (cases "P a ''tcp_scan''") (auto simp add: Let_def)

lemma scan_loop_block:
  assumes "blk \<noteq> []" and "s mod 10 = 0" and "length blk \<le> 10"
      and "length blk = 10 \<or> s + length blk = T" and "s + length blk \<le> T"
  shows "scan_loop P cb T (blk @ rest)
     \<lparr>ips_scanned = s, all_devices_found = al, devices_since_checkpoint = [],
      known_devices = kn, callback_calls = cs\<rparr>
   = scan_loop P cb T rest
     \<lparr>ips_scanned = s + length blk,
      all_devices_found = al @ List.map_filter (\<lambda>a. P a ''tcp_scan'') blk,
      devices_since_checkpoint = [],
      known_devices = fold (\<lambda>d. AList.update (uuid d) d)
                           (List.map_filter (\<lambda>a. P a ''tcp_scan'') blk) kn,
      callback_calls = (if cb then cs @ [(List.map_filter (\<lambda>a. P a ''tcp_scan'') blk, s + length blk, T)]
                        else cs)\<rparr>"
proof -
  obtain pre a where blk: "blk = pre @ [a]"
    using assms(1) by (cases blk rule: rev_cases) auto
  have q1: "s mod 10 + length pre < 10" and q2: "s + length pre < T"
    using assms by (simp_all add: blk)
  have fire: "Suc (s + length pre) mod 10 = 0 \<or> Suc (s + length pre) = T"
    using assms(2,4) by (simp add: blk) presburger
  show ?thesis
    unfolding blk append_assoc append_Cons append_Nil
    by (simp only: scan_loop_quiet [OF q1 q2] scan_loop_checkpoint [OF fire])
       (simp add: map_filter_append)
qed

lemma scan_loop_calls:
  "s mod 10 = 0 \<Longrightarrow> s + length rest = T \<Longrightarrow>
   callback_calls (scan_loop P True T rest
     \<lparr>ips_scanned = s, all_devices_found = al, devices_since_checkpoint = [],
      known_devices = kn, callback_calls = cs\<rparr>)
   = cs @ map (\<lambda>j. (List.map_filter (\<lambda>a. P a ''tcp_scan'') (take 10 (drop (10 * j) rest)),
                    min (s + 10 * (j + 1)) T, T))
              [0..<(length rest + 9) div 10]"
proof (induction "length rest" arbitrary: rest s al kn cs rule: less_induct)
  case less
  show ?case
  proof (cases "rest = []")
    case True
    then show ?thesis by simp
  next
    case False
    let ?blk = "take 10 rest" and ?rest' = "drop 10 rest"
    let ?found = "List.map_filter (\<lambda>a. P a ''tcp_scan'')"
    have split: "rest = ?blk @ ?rest'" by simp
    have b1: "?blk \<noteq> []" using False by simp
    have b3: "length ?blk \<le> 10" by simp
    have b4: "length ?blk = 10 \<or> s + length ?blk = T" using less.prems(2) by auto
    have b5: "s + length ?blk \<le> T" using less.prems(2) by auto
    note step = scan_loop_block [OF b1 less.prems(1) b3 b4 b5, of P True ?rest' al kn cs]
    show ?thesis
    proof (cases "length rest < 10")
      case True
      then have d: "?rest' = []" and t: "?blk = rest" by simp_all
      have n: "(length rest + 9) div 10 = 1"
        using True False by (cases rest) auto
      have "callback_calls (scan_loop P True T rest
               \<lparr>ips_scanned = s, all_devices_found = al, devices_since_checkpoint = [],
                known_devices = kn, callback_calls = cs\<rparr>)
            = cs @ [(?found rest, s + length rest, T)]"
        using step unfolding d t by simp
      then show ?thesis
        using True less.prems(2) by (simp add: n)
    next
      case False
      then have len: "length ?blk = 10" by simp
      have s': "(s + length ?blk) mod 10 = 0" using less.prems(1) len by simp
      have t': "s + length ?blk + length ?rest' = T" using less.prems(2) False by simp
      have smaller: "length ?rest' < length rest" using False by simp
      have n: "(length rest + 9) div 10 = Suc ((length ?rest' + 9) div 10)"
        using False by simp
      have "callback_calls (scan_loop P True T rest
               \<lparr>ips_scanned = s, all_devices_found = al, devices_since_checkpoint = [],
                known_devices = kn, callback_calls = cs\<rparr>)
            = callback_calls (scan_loop P True T (?blk @ ?rest')
               \<lparr>ips_scanned = s, all_devices_found = al, devices_since_checkpoint = [],
                known_devices = kn, callback_calls = cs\<rparr>)"
        by simp
      also have "\<dots> = (cs @ [(?found ?blk, s + length ?blk, T)])
            @ map (\<lambda>j. (?found (take 10 (drop (10 * j) ?rest')),
                         min (s + length ?blk + 10 * (j + 1)) T, T))
                  [0..<(length ?rest' + 9) div 10]"
        unfolding step by (simp only: if_True less.hyps [OF smaller s' t'])
      also have "\<dots> = cs @ map (\<lambda>j. (?found (take 10 (drop (10 * j) rest)),
                                      min (s + 10 * (j + 1)) T, T))
                                [0..<(length rest + 9) div 10]"
        using b5 False unfolding n
        by (simp add: upt_conv_Cons map_Suc_upt [symmetric] len add.commute add.left_commute
                 del: upt_Suc)
      finally show ?thesis .
    qed
  qed
qed


text \<open>
  Claim C8.  Scanning a candidate list of \<open>T\<close> addresses with a progress callback
  invokes the callback \<open>(T + 9) div 10\<close> times, the ceiling of \<open>T / 10\<close>: the
  \<open>j\<close>-th invocation (from 0) receives the devices found among the addresses
  \<open>10 j + 1\<close> to \<open>min (10 (j + 1)) T\<close>, that is since the previous checkpoint, the
  cumulative count \<open>min (10 (j + 1)) T\<close> and the total \<open>T\<close>.  For a non-empty
  list the last invocation is at address \<open>T\<close>, whether or not \<open>T\<close> is a multiple
  of ten.
\<close>

theorem discover_tcp_progressive_callbacks:
  "callback_calls (snd (discover_tcp_progressive P True known all_ips))
     = map (\<lambda>j. (List.map_filter (\<lambda>a. P a ''tcp_scan'') (take 10 (drop (10 * j) all_ips)),
                  min (10 * (j + 1)) (length all_ips), length all_ips))
           [0..<(length all_ips + 9) div 10]
   \<and> length (callback_calls (snd (discover_tcp_progressive P True known all_ips)))
       = (length all_ips + 9) div 10
   \<and> (all_ips \<noteq> [] \<longrightarrow>
        last (callback_calls (snd (discover_tcp_progressive P True known all_ips)))
        = (List.map_filter (\<lambda>a. P a ''tcp_scan'')
             (drop (10 * ((length all_ips - 1) div 10)) all_ips),
           length all_ips, length all_ips))"
proof -
  let ?T = "length all_ips"
  let ?f = "\<lambda>j. (List.map_filter (\<lambda>a. P a ''tcp_scan'') (take 10 (drop (10 * j) all_ips)),
                  min (10 * (j + 1)) ?T, ?T)"
  let ?n = "(?T + 9) div 10"
  have calls: "callback_calls (snd (discover_tcp_progressive P True known all_ips))
               = map ?f [0..<?n]"
    using scan_loop_calls [of 0 all_ips ?T P "[]" known "[]"]
    by (simp add: discover_tcp_progressive_def Let_def)
  have len: "length (map ?f [0..<?n]) = ?n"
    by simp
  have lst: "last (map ?f [0..<?n])
        = (List.map_filter (\<lambda>a. P a ''tcp_scan'') (drop (10 * ((?T - 1) div 10)) all_ips), ?T, ?T)"
    if ne: "all_ips \<noteq> []"
  proof -
    from ne obtain k where k: "?T = Suc k"
      by (cases all_ips) auto
    have bound: "Suc k \<le> 10 * (k div 10) + 10"
      using div_mult_mod_eq [of k 10] mod_less_divisor [of 10 k] by linarith
    have n: "?n = Suc ((?T - 1) div 10)"
      by (simp add: k)
    have m: "min (10 * ((?T - 1) div 10 + 1)) ?T = ?T"
      using bound by (simp add: k)
    have tk: "take 10 (drop (10 * ((?T - 1) div 10)) all_ips)
              = drop (10 * ((?T - 1) div 10)) all_ips"
      using bound by (intro take_all) (simp add: k)
    show ?thesis
      unfolding n by (simp only: upt_Suc_append le0 if_True map_append list.map last_snoc m tk)
  qed
  show ?thesis
    unfolding calls
  proof (intro conjI impI)
    show "map ?f [0..<?n] = map ?f [0..<?n]" ..
    show "length (map ?f [0..<?n]) = ?n" by (rule len)
    show "last (map ?f [0..<?n])
        = (List.map_filter (\<lambda>a. P a ''tcp_scan'') (drop (10 * ((?T - 1) div 10)) all_ips), ?T, ?T)"
      if "all_ips \<noteq> []" using that by (rule lst)
  qed
qed


theorem discover_tcp_progressive_callbacks_witness:
  "length (callback_calls (snd (discover_tcp_progressive (\<lambda>a m. None) True []
             (replicate 500 ''10.0.60.1''))))
     = 50
   \<and> last (callback_calls (snd (discover_tcp_progressive (\<lambda>a m. None) True []
             (replicate 500 ''10.0.60.1''))))
     = ([], 500, 500)"
proof -
  note inst = discover_tcp_progressive_callbacks
          [of "\<lambda>a m. None" "[]" "replicate 500 ''10.0.60.1''"]
  have n: "length (callback_calls (snd (discover_tcp_progressive (\<lambda>a m. None) True []
             (replicate 500 ''10.0.60.1''))))
           = (length (replicate 500 ''10.0.60.1'') + 9) div 10"
    by (rule conjunct1 [OF conjunct2 [OF inst]])
  have l: "replicate 500 ''10.0.60.1'' \<noteq> [] \<longrightarrow>
        last (callback_calls (snd (discover_tcp_progressive (\<lambda>a m. None) True []
             (replicate 500 ''10.0.60.1''))))
        = (List.map_filter (\<lambda>a. None)
             (drop (10 * ((length (replicate 500 ''10.0.60.1'') - 1) div 10))
                (replicate 500 ''10.0.60.1'')),
           length (replicate 500 ''10.0.60.1''), length (replicate 500 ''10.0.60.1''))"
    by (rule conjunct2 [OF conjunct2 [OF inst]])
  have ne: "replicate 500 ''10.0.60.1'' \<noteq> []"
    by simp
  have f: "List.map_filter (\<lambda>a. None) xs = []" for xs :: "string list"
    by (simp add: List.map_filter_def)
  show ?thesis
    using n l [rule_format, OF ne] by (simp only: f length_replicate) simp
qed

section \<open>The minute upload checkpoint\<close>










section \<open>Registration after a remote discovery command\<close>

lemma register_thermostats_frame:
  "posts (snd (register_thermostats e rs w)) = posts w
   \<and> thermostats (snd (register_thermostats e rs w)) = thermostats w
   \<and> device_config (snd (register_thermostats e rs w)) = device_config w"
  by (simp add: register_thermostats_def)

text \<open>The remote registration step writes neither to a device nor to the local tables.\<close>

lemma handle_device_registration_frame:
  "posts (snd (handle_device_registration e r w)) = posts w
   \<and> thermostats (snd (handle_device_registration e r w)) = thermostats w
   \<and> device_config (snd (handle_device_registration e r w)) = device_config w"
  using register_thermostats_frame [of e "thermostats_to_register e w (devices_found r)" w]
  by (simp add: handle_device_registration_def Let_def split_def)

lemma complete_discovery_command_frame:
  "posts (snd (complete_discovery_command e a ds w)) = posts w
   \<and> thermostats (snd (complete_discovery_command e a ds w)) = thermostats w
   \<and> device_config (snd (complete_discovery_command e a ds w)) = device_config w"
  by (simp add: complete_discovery_command_def Let_def handle_device_registration_frame)

text \<open>
  Claim C4 says that a remote discovery command that requests registration registers the
  devices it finds through the path of a local discovery: upsert into the local table,
  then the hold-aware configuration policy.  Evaluated on one new device that reports
  hold = 1, the remote command appends its registration outcome, with
  \<open>local_registration_success\<close> set, but leaves the table \<open>thermostats\<close> empty,
  sends nothing to the device and mirrors nothing; it only announces the device to the
  public server, with model and firmware \<open>Unknown\<close>.  The local path, on the same
  device, stores it, sends the fan-off baseline, mirrors the held settings and announces
  the full record.
\<close>

theorem remote_registration_bypasses_local_path:
  "complete_discovery_command
       \<lparr>today = \<lparr>year = 2025, month = 7, day = 4\<rparr>, now = 1000, weekday = 4, hour = 12,
        minute = 30, device_answers_post = (\<lambda>n a p. Resp 200 []),
        device_answers_get = (\<lambda>a. Resp 200 [(''tmode'', PInt 1), (''t_heat'', PInt 68),
                                               (''hold'', PInt 1)]),
        device_config_write_fails = False, thermostats_read_fails = False,
        thermostats_write_fails = False, public_sync_present = True,
        public_server_enabled = True, register_ok = (\<lambda>rs. True)\<rparr>
       True
       [\<lparr>ip = ''10.0.60.5'', uuid = ''5cdad4'', name = ''hall'', model = ''CT50'',
         api_version = 113, fw_version = ''1.04'', base_url = ''http://10.0.60.5/tstat'',
         discovery_method = ''udp_multicast'', last_seen = 0\<rparr>]
       \<lparr>posts = [], device_config = [], thermostats = [], registrations = []\<rparr>
   = (\<lparr>total_devices_found = 1,
       devices_found = [\<lparr>fd_thermostat_id = ''5cdad4'', fd_name = ''hall'', fd_ip = ''10.0.60.5'',
                         fd_discovery_method = ''udp_multicast''\<rparr>],
       registration = Some \<lparr>local_registration_success = True,
                              public_server_registration_success = True,
                              devices_registered = 1, registration_errors = []\<rparr>\<rparr>,
      \<lparr>posts = [], device_config = [], thermostats = [],
       registrations =
         [[\<lparr>r_thermostat_id = ''5cdad4'', r_ip_address = ''10.0.60.5'',
            r_name = ''hall'', r_model = ''Unknown'', r_api_version = 0,
            r_fw_version = ''Unknown'', r_discovery_method = ''udp_multicast'',
            r_active = True, r_away_temp = Some 50, r_last_seen = 1000\<rparr>]]\<rparr>)
   \<and> register_and_configure_devices
       \<lparr>today = \<lparr>year = 2025, month = 7, day = 4\<rparr>, now = 1000, weekday = 4, hour = 12,
        minute = 30, device_answers_post = (\<lambda>n a p. Resp 200 []),
        device_answers_get = (\<lambda>a. Resp 200 [(''tmode'', PInt 1), (''t_heat'', PInt 68),
                                               (''hold'', PInt 1)]),
        device_config_write_fails = False, thermostats_read_fails = False,
        thermostats_write_fails = False, public_sync_present = True,
        public_server_enabled = True, register_ok = (\<lambda>rs. True)\<rparr>
       [\<lparr>ip = ''10.0.60.5'', uuid = ''5cdad4'', name = ''hall'', model = ''CT50'',
         api_version = 113, fw_version = ''1.04'', base_url = ''http://10.0.60.5/tstat'',
         discovery_method = ''udp_multicast'', last_seen = 0\<rparr>]
       ''periodic_discovery''
       \<lparr>posts = [], device_config = [], thermostats = [], registrations = []\<rparr>
   = \<lparr>posts = [(''10.0.60.5'', [(''fmode'', PInt 0)])],
      device_config =
        [(''5cdad4'',
          [(''tmode_set'', PInt 1), (''tmode_applied_at'', PInt 1000),
           (''t_heat_set'', PInt 68), (''t_heat_applied_at'', PInt 1000),
           (''hold_set'', PInt 1), (''hold_applied_at'', PInt 1000),
           (''updated_at'', PInt 1000)])],
      thermostats =
        [(''5cdad4'',
          \<lparr>r_thermostat_id = ''5cdad4'', r_ip_address = ''10.0.60.5'',
           r_name = ''hall'', r_model = ''CT50'', r_api_version = 113,
           r_fw_version = ''1.04'', r_discovery_method = ''udp_multicast'',
           r_active = True, r_away_temp = Some 50, r_last_seen = 1000\<rparr>)],
      registrations =
        [[\<lparr>r_thermostat_id = ''5cdad4'', r_ip_address = ''10.0.60.5'',
           r_name = ''hall'', r_model = ''CT50'', r_api_version = 113,
           r_fw_version = ''1.04'', r_discovery_method = ''udp_multicast'',
           r_active = True, r_away_temp = Some 50, r_last_seen = 1000\<rparr>]]\<rparr>"
  by code_simp

end
